theory Spec2Isabelle
  imports Complex_Main "HOL-Library.Multiset"
begin

section \<open>Banking simulator: embedding of the source\<close>

text \<open>
  Conventions of the embedding.
  \<^item> A Python \<open>float\<close> is a \<open>real\<close>: arithmetic is exact, comparisons are the
    source's comparisons.
  \<^item> A \<open>datetime\<close> is an \<open>int\<close>, the number of microseconds since the epoch, and
    a \<open>timedelta\<close> is an \<open>int\<close> number of microseconds.
  \<^item> Every call of \<open>datetime.now()\<close> and every draw from the module \<open>random\<close> is
    an explicit argument of the function that makes the call.
  \<^item> An exception is a value \<open>Inl e\<close> of a sum type.
\<close>

subsection \<open>Numbers\<close>

text \<open>Rounding to the nearest integer, ties to the even neighbour: the rounding of
  Python's \<open>round\<close> and of \<open>timedelta * float\<close>.\<close>

definition py_round :: "real \<Rightarrow> int" where
  "py_round x =
     (let f = \<lfloor>x\<rfloor>; d = x - of_int f
      in if d < 1 / 2 then f
         else if 1 / 2 < d then f + 1
         else if even f then f else f + 1)"

text \<open>\<open>round(x, n)\<close> on a float, for \<open>n\<close> decimal places.\<close>

definition py_round_to :: "nat \<Rightarrow> real \<Rightarrow> real" where
  "py_round_to n x = of_int (py_round (x * 10 ^ n)) / 10 ^ n"

text \<open>\<open>int(x)\<close> on a float truncates towards zero.\<close>

definition py_int :: "real \<Rightarrow> int" where
  "py_int x = (if 0 \<le> x then \<lfloor>x\<rfloor> else \<lceil>x\<rceil>)"

text \<open>\<open>timedelta * float\<close>: the product, rounded to a whole microsecond.\<close>

definition td_mul :: "int \<Rightarrow> real \<Rightarrow> int" where
  "td_mul d m = py_round (of_int d * m)"

text \<open>\<open>random.uniform(a, b)\<close> is \<open>a + (b - a) * random()\<close>; the argument \<open>u\<close> is the
  value \<open>random()\<close> returned, a number in \<open>[0, 1)\<close>.\<close>

definition uniform :: "real \<Rightarrow> real \<Rightarrow> real \<Rightarrow> real" where
  "uniform a b u = a + (b - a) * u"

subsection \<open>The simulation clock (engine.py, class SimulationClock)\<close>

record clock =
  speed_multiplier :: real
  real_start_time :: int
  sim_start_time :: int
  paused :: bool
  pause_duration :: int
  pause_start :: "int option"

text \<open>\<open>SimulationClock.__init__\<close>: the two calls of \<open>datetime.now()\<close> are \<open>now1\<close>
  and \<open>now2\<close>.\<close>

definition clock_init :: "real \<Rightarrow> int \<Rightarrow> int \<Rightarrow> clock" where
  "clock_init m now1 now2 =
     \<lparr>speed_multiplier = m, real_start_time = now1, sim_start_time = now2,
      paused = False, pause_duration = 0, pause_start = None\<rparr>"

definition get_current_sim_time :: "clock \<Rightarrow> int \<Rightarrow> int" where
  "get_current_sim_time c now =
     (if paused c then sim_start_time c
      else (let real_elapsed = now - real_start_time c - pause_duration c;
                sim_elapsed = td_mul real_elapsed (speed_multiplier c)
            in sim_start_time c + sim_elapsed))"

definition pause :: "clock \<Rightarrow> int \<Rightarrow> clock" where
  "pause c now =
     (if \<not> paused c then c\<lparr>pause_start := Some now, paused := True\<rparr> else c)"

definition resume :: "clock \<Rightarrow> int \<Rightarrow> clock" where
  "resume c now =
     (case pause_start c of
        None \<Rightarrow> c
      | Some ps \<Rightarrow>
          if paused c
          then c\<lparr>pause_duration := pause_duration c + (now - ps),
                 paused := False, pause_start := None\<rparr>
          else c)"

text \<open>\<open>set_speed\<close> reads the wall clock twice: \<open>now1\<close> inside
  \<open>get_current_sim_time\<close>, then \<open>now2\<close> for the new anchor.\<close>

definition set_speed :: "clock \<Rightarrow> real \<Rightarrow> int \<Rightarrow> int \<Rightarrow> clock" where
  "set_speed c multiplier now1 now2 =
     (let current_sim = get_current_sim_time c now1
      in c\<lparr>real_start_time := now2 - pause_duration c,
           sim_start_time := current_sim,
           speed_multiplier := multiplier\<rparr>)"

subsection \<open>The metrics collector (metrics.py)\<close>

text \<open>A time series is a \<open>deque(maxlen=1000)\<close> of points; a point is kept as its
  timestamp and value. \<open>counters\<close> is a \<open>defaultdict(int)\<close>: a missing key reads 0.\<close>

record metrics_collector =
  enabled :: bool
  counters :: "string \<rightharpoonup> int"
  time_series :: "string \<rightharpoonup> (int \<times> real) list"

definition deque_append :: "nat \<Rightarrow> 'a list \<Rightarrow> 'a \<Rightarrow> 'a list" where
  "deque_append maxlen xs x =
     (let ys = xs @ [x] in drop (length ys - maxlen) ys)"

definition add_point :: "(int \<times> real) list \<Rightarrow> real \<Rightarrow> int \<Rightarrow> (int \<times> real) list" where
  "add_point data_points v now = deque_append 1000 data_points (now, v)"

definition counter_value :: "metrics_collector \<Rightarrow> string \<Rightarrow> int" where
  "counter_value mc name = (case counters mc name of None \<Rightarrow> 0 | Some v \<Rightarrow> v)"

definition record_counter :: "metrics_collector \<Rightarrow> string \<Rightarrow> int \<Rightarrow> int \<Rightarrow> metrics_collector" where
  "record_counter mc name v now =
     (if \<not> enabled mc then mc
      else
        (let cs = (counters mc)(name \<mapsto> counter_value mc name + v);
             rate = name @ ''_rate'';
             ts = (case time_series mc rate of None \<Rightarrow> [] | Some ps \<Rightarrow> ps)
         in mc\<lparr>counters := cs,
                time_series := (time_series mc)(rate \<mapsto> add_point ts (of_int v) now)\<rparr>))"

definition record_fraud_decision :: "metrics_collector \<Rightarrow> bool \<Rightarrow> bool \<Rightarrow> int \<Rightarrow> metrics_collector" where
  "record_fraud_decision mc predicted_fraud actual_fraud now =
     (if predicted_fraud \<and> actual_fraud then record_counter mc ''true_positives'' 1 now
      else if predicted_fraud \<and> \<not> actual_fraud then record_counter mc ''false_positives'' 1 now
      else if \<not> predicted_fraud \<and> actual_fraud then record_counter mc ''false_negatives'' 1 now
      else record_counter mc ''true_negatives'' 1 now)"

text \<open>The accuracy step of \<open>SimulationEngine._process_single_transaction\<close>: \<open>action\<close>
  is the \<open>action\<close> entry of the scoring result (\<open>None\<close> when the key is missing, read
  as \<open>APPROVE\<close>), upper-cased, and \<open>is_fraud\<close> is the \<open>is_fraud\<close> entry of the
  transaction metadata (\<open>None\<close> when missing, read as \<open>False\<close>).\<close>

definition upper_char :: "char \<Rightarrow> char" where
  "upper_char c =
     (case map_of (zip ''abcdefghijklmnopqrstuvwxyz'' ''ABCDEFGHIJKLMNOPQRSTUVWXYZ'') c of
        None \<Rightarrow> c
      | Some C \<Rightarrow> C)"

definition upper :: "string \<Rightarrow> string" where
  "upper s = map upper_char s"

definition predicted_fraud_of :: "string option \<Rightarrow> bool" where
  "predicted_fraud_of action =
     (let decision = upper (case action of None \<Rightarrow> ''APPROVE'' | Some a \<Rightarrow> a)
      in decision \<in> set [''REVIEW'', ''DECLINE''])"

definition actual_fraud_of :: "bool option \<Rightarrow> bool" where
  "actual_fraud_of is_fraud = (case is_fraud of None \<Rightarrow> False | Some b \<Rightarrow> b)"

definition record_accuracy :: "metrics_collector \<Rightarrow> string option \<Rightarrow> bool option \<Rightarrow> int \<Rightarrow> metrics_collector" where
  "record_accuracy mc action is_fraud now =
     record_fraud_decision mc (predicted_fraud_of action) (actual_fraud_of is_fraud) now"

subsection \<open>The mock fraud scorer (connectors/bastion.py, class MockBastionConnector)\<close>

text \<open>The request entries that \<open>_mock_score_transaction\<close> reads. \<open>transaction_id\<close> and
  \<open>amount\<close> are read with \<open>data[...]\<close> and are always supplied by \<open>score_transaction\<close>;
  the others are read with \<open>.get\<close> and a default, so they are optional here.\<close>

record score_data =
  sd_transaction_id :: string
  sd_amount :: real
  sd_merchant_category :: "string option"
  sd_channel :: "string option"
  sd_country :: "string option"
  sd_is_fraud :: "bool option"
  sd_fraud_type :: "string option"

record bastion_stats =
  transactions_scored :: nat
  decisions :: "string \<rightharpoonup> nat"
  avg_risk_score :: real

text \<open>Of the response the model keeps the entries computed from the request; the
  entries \<open>model_scores\<close>, \<open>processing_time_ms\<close> and \<open>timestamp\<close> are random or
  wall-clock values on which nothing depends.\<close>

record score_response =
  r_transaction_id :: string
  r_risk_score :: real
  r_action :: string
  r_rule_hits :: "string list"

definition lower_char :: "char \<Rightarrow> char" where
  "lower_char c =
     (case map_of (zip ''ABCDEFGHIJKLMNOPQRSTUVWXYZ'' ''abcdefghijklmnopqrstuvwxyz'') c of
        None \<Rightarrow> c
      | Some l \<Rightarrow> l)"

definition lower :: "string \<Rightarrow> string" where
  "lower s = map lower_char s"

text \<open>The risk score of \<open>_mock_score_transaction\<close> before the clamp, with the
  triggered rules. \<open>current_hour\<close> is \<open>datetime.now().hour\<close> and \<open>u\<close> the value of
  \<open>random()\<close> behind the one \<open>random.uniform\<close> call that is made.\<close>

definition mock_raw_risk :: "score_data \<Rightarrow> nat \<Rightarrow> real \<Rightarrow> real \<times> string list" where
  "mock_raw_risk data current_hour u =
     (let amount = sd_amount data;
          channel = (case sd_channel data of None \<Rightarrow> ''card'' | Some c \<Rightarrow> c);
          country = (case sd_country data of None \<Rightarrow> ''US'' | Some c \<Rightarrow> c);
          is_fraud = (case sd_is_fraud data of None \<Rightarrow> False | Some b \<Rightarrow> b);
          (r1, t1) =
            (if amount > 10000 then (0.1 + 0.4, [''large_amount''])
             else if amount < 1 then (0.1 + 0.3, [''micro_transaction''])
             else (0.1, []));
          (r2, t2) =
            (if country \<in> set [''RU'', ''NG'', ''RO'', ''CN'']
             then (r1 + 0.5, t1 @ [''high_risk_country''])
             else (r1, t1));
          (r3, t3) =
            (if current_hour < 6 \<or> current_hour > 23
             then (r2 + 0.2, t2 @ [''unusual_hours''])
             else (r2, t2));
          (r4, t4) =
            (if channel = ''wire'' then (r3 + 0.1, t3)
             else if channel = ''atm'' \<and> current_hour < 6 then (r3 + 0.3, t3 @ [''night_atm''])
             else (r3, t3));
          (r5, t5) =
            (if is_fraud
             then (let r = max r4 0.8;
                       fraud_type = (case sd_fraud_type data of None \<Rightarrow> ''unknown'' | Some f \<Rightarrow> f)
                   in if fraud_type = ''card_testing'' then (min (r + 0.2) 1, t4)
                      else if fraud_type = ''velocity_attack''
                        then (min (r + 0.3) 1, t4 @ [''velocity_fraud''])
                      else if fraud_type = ''layering'' then (min (r + 0.1) 1, t4)
                      else (r, t4))
             else (r4, t4));
          r6 = (if is_fraud then r5 + uniform (- 0.1) 0.2 u else r5 + uniform (- 0.2) 0.2 u)
      in (r6, t5))"

text \<open>The clamp \<open>risk_score = max(0.0, min(1.0, risk_score))\<close>.\<close>

definition mock_risk_score :: "score_data \<Rightarrow> nat \<Rightarrow> real \<Rightarrow> real \<times> string list" where
  "mock_risk_score data current_hour u =
     (let (r, triggered_rules) = mock_raw_risk data current_hour u
      in (max 0 (min 1 r), triggered_rules))"

definition mock_score_transaction ::
  "bastion_stats \<Rightarrow> score_data \<Rightarrow> nat \<Rightarrow> real \<Rightarrow> score_response \<times> bastion_stats" where
  "mock_score_transaction st data current_hour u =
     (let (risk_score, triggered_rules) = mock_risk_score data current_hour u;
          action = (if risk_score \<ge> 0.8 then ''DECLINE''
                    else if risk_score \<ge> 0.5 then ''REVIEW''
                    else ''APPROVE'');
          count = transactions_scored st + 1;
          key = lower action;
          st' = st\<lparr>transactions_scored := count,
                    decisions := (decisions st)(key \<mapsto>
                       (case decisions st key of None \<Rightarrow> 0 | Some n \<Rightarrow> n) + 1),
                    avg_risk_score :=
                       (avg_risk_score st * (real count - 1) + risk_score) / real count\<rparr>
      in (\<lparr>r_transaction_id = sd_transaction_id data,
            r_risk_score = py_round_to 3 risk_score,
            r_action = action,
            r_rule_hits = triggered_rules\<rparr>, st'))"

subsection \<open>HTTP requests with retries (connectors/nexum.py and connectors/bastion.py)\<close>

text \<open>\<open>NexumConnector._make_request\<close> and \<open>BastionConnector._make_request\<close> are the same
  code up to the name of the service in the exceptions. The transport is a function from
  the attempt number to what the HTTP client did on that attempt: it returned a response
  (status code, the \<open>detail\<close> entry of the decoded error body if there is one, and the
  body), or raised a timeout or a connection error. The effects of a call are kept as a
  trace: each request sent and each \<open>asyncio.sleep\<close> with its number of seconds.\<close>

datatype service = Nexum | Bastion

datatype http_outcome =
    Response nat "string option" string
  | TimeoutException
  | ConnectError

datatype request_error =
    APIError service nat string
  | ConnectionError service string

datatype effect = Request nat | Sleep nat

datatype error_entry = StatusEntry nat | TimeoutEntry | ConnectionEntry

text \<open>The statistics of a connector, without the accumulated latency, which is a
  difference of wall-clock readings.\<close>

record connector_stats =
  requests_sent :: nat
  requests_successful :: nat
  requests_failed :: nat
  errors :: "error_entry list"

definition service_name :: "service \<Rightarrow> string" where
  "service_name s = (case s of Nexum \<Rightarrow> ''Nexum'' | Bastion \<Rightarrow> ''Bastion'')"

definition detail_or :: "string option \<Rightarrow> string \<Rightarrow> string" where
  "detail_or d dflt = (case d of None \<Rightarrow> dflt | Some m \<Rightarrow> m)"

text \<open>The body of \<open>for attempt in range(self.max_retries + 1)\<close>, over the attempt numbers
  still to run; the empty list is the statement after the loop.\<close>

fun request_attempts ::
  "service \<Rightarrow> nat \<Rightarrow> (nat \<Rightarrow> http_outcome) \<Rightarrow> string \<Rightarrow> nat list \<Rightarrow> connector_stats
     \<Rightarrow> effect list \<Rightarrow> (request_error + string) \<times> connector_stats \<times> effect list" where
  "request_attempts svc max_retries transport url [] st tr =
     (Inl (ConnectionError svc ''Max retries exceeded''), st, tr)"
| "request_attempts svc max_retries transport url (attempt # rest) st tr =
     (let tr1 = tr @ [Request attempt] in
      case transport attempt of
        Response status_code detail body \<Rightarrow>
          if status_code = 200 \<or> status_code = 201
          then (Inr body, st\<lparr>requests_successful := requests_successful st + 1\<rparr>, tr1)
          else if status_code \<ge> 400
          then
            if attempt = max_retries
            then (Inl (APIError svc status_code (detail_or detail ''Unknown error'')),
                  st\<lparr>requests_failed := requests_failed st + 1,
                     errors := errors st @ [StatusEntry status_code]\<rparr>, tr1)
            else if status_code \<ge> 500
            then request_attempts svc max_retries transport url rest st
                   (tr1 @ [Sleep (2 ^ attempt)])
            else (Inl (APIError svc status_code (detail_or detail ''Client error'')),
                  st\<lparr>requests_failed := requests_failed st + 1\<rparr>, tr1)
          else request_attempts svc max_retries transport url rest st tr1
      | TimeoutException \<Rightarrow>
          if attempt = max_retries
          then (Inl (ConnectionError svc
                      (''Timeout connecting to '' @ service_name svc @ '' at '' @ url)),
                st\<lparr>requests_failed := requests_failed st + 1,
                   errors := errors st @ [TimeoutEntry]\<rparr>, tr1)
          else request_attempts svc max_retries transport url rest st
                 (tr1 @ [Sleep (2 ^ attempt)])
      | ConnectError \<Rightarrow>
          if attempt = max_retries
          then (Inl (ConnectionError svc
                      (''Cannot connect to '' @ service_name svc @ '' at '' @ url)),
                st\<lparr>requests_failed := requests_failed st + 1,
                   errors := errors st @ [ConnectionEntry]\<rparr>, tr1)
          else request_attempts svc max_retries transport url rest st
                 (tr1 @ [Sleep (2 ^ attempt)]))"

definition make_request ::
  "service \<Rightarrow> nat \<Rightarrow> (nat \<Rightarrow> http_outcome) \<Rightarrow> string \<Rightarrow> connector_stats
     \<Rightarrow> (request_error + string) \<times> connector_stats \<times> effect list" where
  "make_request svc max_retries transport url st =
     request_attempts svc max_retries transport url [0..<max_retries + 1]
       (st\<lparr>requests_sent := requests_sent st + 1\<rparr>) []"

fun is_request :: "effect \<Rightarrow> bool" where
  "is_request (Request _) = True"
| "is_request (Sleep _) = False"

definition attempts_made :: "effect list \<Rightarrow> nat" where
  "attempts_made tr = length (filter is_request tr)"

subsection \<open>The mock core-banking connector (connectors/nexum.py, class MockNexumConnector)\<close>

text \<open>A balance is stored as the string \<open>f"{x:.2f}"\<close> and read back with \<open>float\<close>: it is
  kept here as the number the string denotes, \<open>x\<close> rounded to two decimals.\<close>

record account =
  acc_id :: string
  acc_customer_id :: string
  book_balance :: real
  available_balance :: real

record mock_nexum =
  accounts :: "string \<rightharpoonup> account"
  next_transaction_id :: nat

record deposit_data =
  dd_account_id :: string
  dd_amount :: real

record txn_response =
  tr_transaction_id :: string
  tr_state :: string
  tr_message :: string

definition digit_char :: "nat \<Rightarrow> char" where
  "digit_char d = ''0123456789'' ! d"

function dec_digits :: "nat \<Rightarrow> string" where
  "dec_digits n =
     (if n < 10 then [digit_char n] else dec_digits (n div 10) @ [digit_char (n mod 10)])"
  by pat_completeness auto
termination
  by (relation "measure id") auto

declare dec_digits.simps [simp del]

text \<open>The format \<open>{n:06d}\<close>: decimal digits, padded with zeros to six characters.\<close>

definition format_06d :: "nat \<Rightarrow> string" where
  "format_06d n = (let s = dec_digits n in replicate (6 - length s) CHR ''0'' @ s)"

definition mock_get_account :: "mock_nexum \<Rightarrow> string \<Rightarrow> request_error + account" where
  "mock_get_account st account_id =
     (case accounts st account_id of
        None \<Rightarrow> Inl (APIError Nexum 404 ''Account not found'')
      | Some a \<Rightarrow> Inr a)"

definition mock_deposit :: "mock_nexum \<Rightarrow> deposit_data \<Rightarrow> txn_response \<times> mock_nexum" where
  "mock_deposit st data =
     (let transaction_id = ''TXN_'' @ format_06d (next_transaction_id st);
          st1 = st\<lparr>next_transaction_id := next_transaction_id st + 1\<rparr>;
          account_id = dd_account_id data;
          st2 = (case accounts st1 account_id of
                   None \<Rightarrow> st1
                 | Some a \<Rightarrow>
                     (let current_balance = book_balance a;
                          amount = dd_amount data;
                          new_balance = current_balance + amount
                      in st1\<lparr>accounts := (accounts st1)(account_id \<mapsto>
                              a\<lparr>book_balance := py_round_to 2 new_balance,
                                available_balance := py_round_to 2 new_balance\<rparr>)\<rparr>))
      in (\<lparr>tr_transaction_id = transaction_id,
            tr_state = ''processed'',
            tr_message = ''Deposit processed successfully''\<rparr>, st2))"

subsection \<open>Python exceptions raised by the generators\<close>

datatype py_error = TypeError | ValueError | KeyError | IndexError | ZeroDivisionError

subsection \<open>Customer profiles (generators/customers.py)\<close>

datatype income_level = Income_LOW | Income_MEDIUM | Income_HIGH | Income_ULTRA_HIGH

datatype risk_profile = LOW_RISK | MEDIUM_RISK | HIGH_RISK

datatype behavior_pattern = SAVER | SPENDER | IRREGULAR | BUSINESS

datatype customer_life_stage = STUDENT | YOUNG_PROFESSIONAL | FAMILY | ESTABLISHED | RETIREE

text \<open>The dataclass \<open>CustomerProfile\<close>; \<open>date_of_birth\<close> is a day number.\<close>

record customer_profile =
  cp_customer_id :: string
  cp_first_name :: string
  cp_last_name :: string
  cp_email :: string
  cp_phone :: string
  cp_date_of_birth :: int
  cp_address_line1 :: string
  cp_city :: string
  cp_state :: string
  cp_postal_code :: string
  cp_country :: string
  cp_income_level :: income_level
  cp_risk_profile :: risk_profile
  cp_behavior_pattern :: behavior_pattern
  cp_life_stage :: customer_life_stage
  cp_credit_score :: int
  cp_monthly_income :: real
  cp_monthly_expenses :: real
  cp_preferred_balance :: real
  cp_primary_channel :: string
  transaction_frequency :: real
  cp_international_activity :: bool
  cp_high_risk_tolerance :: bool
  cp_tech_savvy :: bool
  cp_fraud_awareness :: real
  cp_social_media_presence :: bool

subsection \<open>Life events (generators/events.py)\<close>

text \<open>The dataclass \<open>LifeEvent\<close>, without the free-form \<open>details\<close> dictionary and the
  two enumeration tags, which \<open>apply_event_effects\<close> does not read. \<open>event_date\<close> is in
  microseconds, as every \<open>datetime\<close>.\<close>

record life_event =
  ev_event_id :: string
  ev_customer_id :: string
  ev_event_date :: int
  ev_duration_days :: int
  transaction_frequency_multiplier :: real
  ev_spending_pattern_change :: "string option"
  risk_score_adjustment :: real
  new_locations :: "string list option"
  channel_preferences :: "string list option"

definition microseconds_per_day :: int where
  "microseconds_per_day = 86400000000"

definition end_date :: "life_event \<Rightarrow> int" where
  "end_date e = ev_event_date e + ev_duration_days e * microseconds_per_day"

definition is_active :: "life_event \<Rightarrow> int \<Rightarrow> bool" where
  "is_active e current_time = (ev_event_date e \<le> current_time \<and> current_time \<le> end_date e)"

definition get_active_events :: "string \<Rightarrow> int \<Rightarrow> life_event list \<Rightarrow> life_event list" where
  "get_active_events customer_id current_time events =
     filter (\<lambda>e. ev_customer_id e = customer_id \<and> is_active e current_time) events"




text \<open>Python truthiness of an optional list: \<open>None\<close> and \<open>[]\<close> are false.\<close>

definition truthy :: "'a list option \<Rightarrow> bool" where
  "truthy xs = (case xs of None \<Rightarrow> False | Some ys \<Rightarrow> ys \<noteq> [])"



subsection \<open>Draws from the module random\<close>

text \<open>Each draw is an argument: a real \<open>u\<close> in \<open>[0, 1)\<close> for \<open>random.random()\<close> (see
  \<open>uniform\<close> above), and a natural number \<open>k\<close> for the integer-valued functions, which
  is reduced into the range that the function can return. \<open>random.randint(a, b)\<close> raises
  \<open>ValueError\<close> on an empty range, \<open>random.choice\<close> raises \<open>IndexError\<close> on an empty
  sequence, and \<open>random.sample(population, k)\<close> raises \<open>ValueError\<close> unless
  \<open>0 \<le> k \<le> len(population)\<close>.\<close>

definition randint :: "int \<Rightarrow> int \<Rightarrow> nat \<Rightarrow> py_error + int" where
  "randint a b k = (if b < a then Inl ValueError else Inr (a + int k mod (b - a + 1)))"

definition choice :: "'a list \<Rightarrow> nat \<Rightarrow> py_error + 'a" where
  "choice xs k = (if xs = [] then Inl IndexError else Inr (xs ! (k mod length xs)))"

text \<open>Sampling without replacement, as the library's pool algorithm does it: the
  element at a drawn position of the pool is taken, and the last element of the pool is
  moved into its place.\<close>

fun sample_pool :: "'a list \<Rightarrow> nat \<Rightarrow> (nat \<Rightarrow> nat) \<Rightarrow> 'a list" where
  "sample_pool pool 0 picks = []"
| "sample_pool pool (Suc k) picks =
     (if pool = [] then []
      else (let j = picks 0 mod length pool
            in pool ! j # sample_pool (butlast (pool[j := last pool])) k (\<lambda>i. picks (Suc i))))"

definition sample :: "'a list \<Rightarrow> int \<Rightarrow> (nat \<Rightarrow> nat) \<Rightarrow> py_error + 'a list" where
  "sample population k picks =
     (if 0 \<le> k \<and> k \<le> int (length population)
      then Inr (sample_pool population (nat k) picks)
      else Inl ValueError)"

subsection \<open>Pending transactions (generators/transactions.py)\<close>

datatype transaction_type =
    DEPOSIT | WITHDRAWAL | TRANSFER | SALARY | RENT_MORTGAGE | UTILITY_BILL | GROCERY
  | RESTAURANT | SHOPPING | ATM_WITHDRAWAL | ONLINE_PURCHASE | GAS_STATION | SUBSCRIPTION
  | P2P_TRANSFER | INVESTMENT | LOAN_PAYMENT | CREDIT_PAYMENT | CASH_ADVANCE | INTERNATIONAL

datatype transaction_channel = ONLINE | MOBILE | ATM | BRANCH | CARD | WIRE | ACH

text \<open>The value of an entry of a metadata dictionary.\<close>

record location =
  loc_country :: string
  loc_city :: string
  loc_risk_score :: real

datatype meta_value =
  MBool bool | MInt int | MReal real | MStr string | MLocation location | MNone

record pending_transaction =
  pt_transaction_type :: transaction_type
  amount :: real
  currency :: string
  description :: string
  channel :: transaction_channel
  from_account_id :: "string option"
  to_account_id :: "string option"
  merchant_id :: "string option"
  merchant_category :: "string option"
  reference :: "string option"
  timestamp :: int
  metadata :: "string \<rightharpoonup> meta_value"

text \<open>\<open>str(i)\<close> of an integer, as an f-string prints it.\<close>

definition str_int :: "int \<Rightarrow> string" where
  "str_int i = (if i < 0 then ''-'' @ dec_digits (nat (- i)) else dec_digits (nat i))"

definition microseconds_per_minute :: int where
  "microseconds_per_minute = 60000000"

definition microseconds_per_hour :: int where
  "microseconds_per_hour = 3600000000"

subsection \<open>Fraud profiles (generators/fraud.py)\<close>

datatype fraud_type =
    CARD_TESTING | VELOCITY_ATTACK | LARGE_AMOUNT | ACCOUNT_TAKEOVER | SYNTHETIC_IDENTITY
  | IDENTITY_THEFT | LAYERING | STRUCTURING | SMURFING | MULE_NETWORK | BUST_OUT
  | ONLINE_FRAUD | UNUSUAL_LOCATION | MERCHANT_FRAUD | REFUND_FRAUD

definition fraud_type_value :: "fraud_type \<Rightarrow> string" where
  "fraud_type_value t =
     (case t of
        CARD_TESTING \<Rightarrow> ''card_testing'' | VELOCITY_ATTACK \<Rightarrow> ''velocity_attack''
      | LARGE_AMOUNT \<Rightarrow> ''large_amount'' | ACCOUNT_TAKEOVER \<Rightarrow> ''account_takeover''
      | SYNTHETIC_IDENTITY \<Rightarrow> ''synthetic_identity'' | IDENTITY_THEFT \<Rightarrow> ''identity_theft''
      | LAYERING \<Rightarrow> ''layering'' | STRUCTURING \<Rightarrow> ''structuring'' | SMURFING \<Rightarrow> ''smurfing''
      | MULE_NETWORK \<Rightarrow> ''mule_network'' | BUST_OUT \<Rightarrow> ''bust_out''
      | ONLINE_FRAUD \<Rightarrow> ''online_fraud'' | UNUSUAL_LOCATION \<Rightarrow> ''unusual_location''
      | MERCHANT_FRAUD \<Rightarrow> ''merchant_fraud'' | REFUND_FRAUD \<Rightarrow> ''refund_fraud'')"

definition all_fraud_types :: "fraud_type list" where
  "all_fraud_types =
     [CARD_TESTING, VELOCITY_ATTACK, LARGE_AMOUNT, ACCOUNT_TAKEOVER, SYNTHETIC_IDENTITY,
      IDENTITY_THEFT, LAYERING, STRUCTURING, SMURFING, MULE_NETWORK, BUST_OUT,
      ONLINE_FRAUD, UNUSUAL_LOCATION, MERCHANT_FRAUD, REFUND_FRAUD]"

text \<open>The enumeration lookup \<open>FraudType(s)\<close> raises \<open>ValueError\<close> for a string that is
  the value of no member.\<close>

definition FraudType :: "string \<Rightarrow> py_error + fraud_type" where
  "FraudType s =
     (case map_of (map (\<lambda>t. (fraud_type_value t, t)) all_fraud_types) s of
        None \<Rightarrow> Inl ValueError
      | Some t \<Rightarrow> Inr t)"

text \<open>An entry of a phase dictionary that is either a number or a pair of bounds.\<close>

datatype int_or_range = IntVal int | RangeVal int int

record phase =
  ph_type :: string
  ph_duration_minutes :: "int_or_range option"
  ph_transaction_count :: "int_or_range option"
  ph_amount_range :: "(real \<times> real) option"

text \<open>The \<open>metadata\<close> dictionary of a fraud profile: one optional entry for each key
  that a generator reads. Reading a missing key with \<open>metadata[...]\<close> raises
  \<open>KeyError\<close>.\<close>

record fraud_metadata =
  md_transaction_count :: "int option"
  md_amount_range :: "(real \<times> real) option"
  md_preferred_channels :: "transaction_channel list option"
  md_merchant_categories :: "string list option"
  md_timing :: "string option"
  md_phases :: "phase list option"
  md_location_change :: "bool option"
  md_device_change :: "bool option"
  md_suspicious_location :: "location option"
  md_hops :: "int option"
  md_amounts :: "real list option"
  md_target_amount :: "real option"
  md_individual_max :: "real option"
  md_is_smurfing :: "bool option"

definition empty_metadata :: fraud_metadata where
  "empty_metadata =
     \<lparr>md_transaction_count = None, md_amount_range = None, md_preferred_channels = None,
      md_merchant_categories = None, md_timing = None, md_phases = None,
      md_location_change = None, md_device_change = None, md_suspicious_location = None,
      md_hops = None, md_amounts = None, md_target_amount = None, md_individual_max = None,
      md_is_smurfing = None\<rparr>"

definition lookup :: "'a option \<Rightarrow> py_error + 'a" where
  "lookup entry = (case entry of None \<Rightarrow> Inl KeyError | Some v \<Rightarrow> Inr v)"

record fraud_profile =
  fraud_id :: string
  fp_fraud_type :: fraud_type
  customer_ids :: "string list"
  account_ids :: "string list"
  start_time :: int
  duration_minutes :: int
  intensity :: real
  success_rate :: real
  sophistication :: real
  fp_metadata :: fraud_metadata

definition end_time :: "fraud_profile \<Rightarrow> int" where
  "end_time p = start_time p + duration_minutes p * microseconds_per_minute"

subsection \<open>Structuring (generators/fraud.py)\<close>

text \<open>The keyword arguments that \<open>_generate_structuring_attack\<close> reads.\<close>

record structuring_kwargs =
  kw_threshold :: "real option"
  kw_split_into :: "real list option"

text \<open>The values drawn by \<open>_generate_structuring_attack\<close>, in the order of the calls:
  \<open>random.uniform(10000, 50000)\<close> (the default of \<open>kwargs.get\<close> is evaluated whether
  or not \<open>threshold\<close> is given), \<open>random.random()\<close>, then either \<open>random.choice\<close> or
  \<open>random.randint(2, 5)\<close> and \<open>random.sample\<close>, and \<open>random.randint(60, 10080)\<close>.\<close>

record attack_draws =
  ad_target :: real
  ad_single :: real
  ad_choice :: nat
  ad_count :: nat
  ad_sample :: "nat \<Rightarrow> nat"
  ad_duration :: nat

fun collect_accounts :: "(string \<rightharpoonup> string list) \<Rightarrow> string list \<Rightarrow> py_error + string list" where
  "collect_accounts account_mapping [] = Inr []"
| "collect_accounts account_mapping (c # cs) =
     (case account_mapping c of
        None \<Rightarrow> Inl KeyError
      | Some accs \<Rightarrow>
          (case collect_accounts account_mapping cs of
             Inl e \<Rightarrow> Inl e
           | Inr rest \<Rightarrow> Inr (accs @ rest)))"

definition generate_structuring_attack ::
  "string \<Rightarrow> customer_profile list \<Rightarrow> (string \<rightharpoonup> string list) \<Rightarrow> int \<Rightarrow> real
     \<Rightarrow> structuring_kwargs \<Rightarrow> attack_draws \<Rightarrow> py_error + fraud_profile" where
  "generate_structuring_attack fid customers account_mapping start intens kwargs d =
     (let target_amount =
            (case kw_threshold kwargs of
               None \<Rightarrow> uniform 10000 50000 (ad_target d)
             | Some t \<Rightarrow> t)
      in case (case kw_split_into kwargs of
                 None \<Rightarrow> Inr 9999
               | Some [] \<Rightarrow> Inl IndexError
               | Some (x # _) \<Rightarrow> Inr x) of
           Inl e \<Rightarrow> Inl e
         | Inr individual_max \<Rightarrow>
             if individual_max = 0 then Inl ZeroDivisionError
             else
               (let transaction_count = \<lceil>target_amount / individual_max\<rceil> in
                case (if ad_single d < 0.7
                      then (case choice customers (ad_choice d) of
                              Inl e \<Rightarrow> Inl e
                            | Inr c \<Rightarrow> Inr [c])
                      else (case randint 2 5 (ad_count d) of
                              Inl e \<Rightarrow> Inl e
                            | Inr n \<Rightarrow>
                                sample customers (min n (int (length customers)))
                                  (ad_sample d))) of
                  Inl e \<Rightarrow> Inl e
                | Inr involved_customers \<Rightarrow>
                    (case collect_accounts account_mapping
                            (map cp_customer_id involved_customers) of
                       Inl e \<Rightarrow> Inl e
                     | Inr all_accounts \<Rightarrow>
                         (case randint 60 10080 (ad_duration d) of
                            Inl e \<Rightarrow> Inl e
                          | Inr dur \<Rightarrow>
                              Inr \<lparr>fraud_id = fid,
                                   fp_fraud_type = STRUCTURING,
                                   customer_ids = map cp_customer_id involved_customers,
                                   account_ids = all_accounts,
                                   start_time = start,
                                   duration_minutes = dur,
                                   intensity = intens,
                                   success_rate = 0.9,
                                   sophistication = 0.8,
                                   fp_metadata = empty_metadata
                                     \<lparr>md_target_amount := Some target_amount,
                                      md_individual_max := Some individual_max,
                                      md_transaction_count := Some transaction_count,
                                      md_is_smurfing :=
                                        Some (length involved_customers > 1)\<rparr>\<rparr>))))"

text \<open>The values drawn in one iteration of a transaction-generating loop. A loop uses
  the fields for the calls it makes: \<open>d_roll\<close> for \<open>random.random()\<close>, \<open>d_amount\<close> for
  the \<open>random()\<close> behind \<open>random.uniform\<close> of the amount, \<open>d_variation\<close> for a
  second \<open>random.uniform\<close>, and one natural number for each \<open>randint\<close> and
  \<open>choice\<close>.\<close>

record iter_draws =
  d_roll :: real
  d_amount :: real
  d_offset :: nat
  d_channel :: nat
  d_account :: nat
  d_merchant :: nat
  d_category :: nat
  d_variation :: real

text \<open>The \<open>PendingTransaction\<close> built in one iteration of
  \<open>_generate_structuring_transactions\<close>: \<open>sequence\<close> is the counter after its
  increment and \<open>amt\<close> the amount before rounding.\<close>

definition structuring_transaction ::
  "fraud_profile \<Rightarrow> real \<Rightarrow> real \<Rightarrow> int \<Rightarrow> real \<Rightarrow> int \<Rightarrow> string \<Rightarrow> transaction_channel
     \<Rightarrow> pending_transaction" where
  "structuring_transaction p target_amount individual_max sequence amt time_offset_hours
       from_account ch =
     \<lparr>pt_transaction_type = DEPOSIT,
      amount = py_round_to 2 amt,
      currency = ''USD'',
      description = ''Structured Deposit '' @ str_int sequence,
      channel = ch,
      from_account_id = None,
      to_account_id = Some from_account,
      merchant_id = None,
      merchant_category = None,
      reference = Some (''STRUCT_'' @ fraud_id p @ ''_'' @ str_int sequence),
      timestamp = start_time p + time_offset_hours * microseconds_per_hour,
      metadata =
        [''fraud_pattern'' \<mapsto> MStr ''structuring'',
         ''sequence'' \<mapsto> MInt sequence,
         ''target_total'' \<mapsto> MReal target_amount,
         ''under_threshold'' \<mapsto> MBool (amt < individual_max)]\<rparr>"

text \<open>The loop of \<open>_generate_structuring_transactions\<close> on its state
  \<open>(remaining_amount, sequence, transactions)\<close>; iteration number \<open>sequence\<close> uses
  \<open>draws sequence\<close>.\<close>

function structuring_loop ::
  "fraud_profile \<Rightarrow> real \<Rightarrow> real \<Rightarrow> int \<Rightarrow> (nat \<Rightarrow> iter_draws)
     \<Rightarrow> real \<Rightarrow> int \<Rightarrow> pending_transaction list
     \<Rightarrow> py_error + (real \<times> int \<times> pending_transaction list)" where
  "structuring_loop p target_amount individual_max transaction_count draws
       remaining_amount sequence transactions =
     (if remaining_amount > 0 \<and> sequence < transaction_count
      then
        (let d = draws (nat sequence);
             amt = min remaining_amount
                     (uniform (individual_max * 0.8) individual_max (d_amount d))
         in case randint 0 (duration_minutes p div 60) (d_offset d) of
              Inl e \<Rightarrow> Inl e
            | Inr time_offset_hours \<Rightarrow>
               (case choice (account_ids p) (d_account d) of
                  Inl e \<Rightarrow> Inl e
                | Inr from_account \<Rightarrow>
                   (case choice [BRANCH, ATM] (d_channel d) of
                      Inl e \<Rightarrow> Inl e
                    | Inr ch \<Rightarrow>
                       structuring_loop p target_amount individual_max transaction_count draws
                         (remaining_amount - amt) (sequence + 1)
                         (transactions @
                           [structuring_transaction p target_amount individual_max
                              (sequence + 1) amt time_offset_hours from_account ch]))))
      else Inr (remaining_amount, sequence, transactions))"
  by pat_completeness auto
termination
  by (relation "measure (\<lambda>(p, t, m, c, d, r, s, ts). nat (c - s))") auto

declare structuring_loop.simps [simp del]

definition generate_structuring_transactions ::
  "fraud_profile \<Rightarrow> int \<Rightarrow> (nat \<Rightarrow> iter_draws) \<Rightarrow> py_error + pending_transaction list" where
  "generate_structuring_transactions p current_time draws =
     (case lookup (md_target_amount (fp_metadata p)) of
        Inl e \<Rightarrow> Inl e
      | Inr target_amount \<Rightarrow>
         (case lookup (md_individual_max (fp_metadata p)) of
            Inl e \<Rightarrow> Inl e
          | Inr individual_max \<Rightarrow>
             if 0 < target_amount
             then
               (case lookup (md_transaction_count (fp_metadata p)) of
                  Inl e \<Rightarrow> Inl e
                | Inr transaction_count \<Rightarrow>
                   (case structuring_loop p target_amount individual_max transaction_count
                           draws target_amount 0 [] of
                      Inl e \<Rightarrow> Inl e
                    | Inr (remaining, sequence, transactions) \<Rightarrow> Inr transactions))
             else Inr []))"

subsection \<open>The transaction generators of the fraud patterns (generators/fraud.py)\<close>

text \<open>Sequencing of steps that may raise: the first exception is the result.\<close>

definition and_then :: "'e + 'a \<Rightarrow> ('a \<Rightarrow> 'e + 'b) \<Rightarrow> 'e + 'b" where
  "and_then r f = (case r of Inl e \<Rightarrow> Inl e | Inr v \<Rightarrow> f v)"

text \<open>The draws of one call of a generator: those of the loop iterations, the count
  drawn by a \<open>randint\<close> before a loop starts, the positions drawn by
  \<open>random.shuffle\<close>,
  and the phase durations drawn by account takeover.\<close>

record gen_draws =
  g_iter :: "nat \<Rightarrow> iter_draws"
  g_count :: nat
  g_shuffle :: "nat \<Rightarrow> nat"
  g_phase :: "nat \<Rightarrow> nat"

text \<open>\<open>range(n)\<close> for an integer \<open>n\<close>: empty when \<open>n \<le> 0\<close>.\<close>

definition py_range :: "int \<Rightarrow> nat list" where
  "py_range n = [0..<nat n]"

definition card_testing_transaction ::
  "fraud_profile \<Rightarrow> nat \<Rightarrow> iter_draws \<Rightarrow> py_error + pending_transaction" where
  "card_testing_transaction p i d =
     and_then (lookup (md_amount_range (fp_metadata p))) (\<lambda>(lo, hi).
     and_then (lookup (md_preferred_channels (fp_metadata p))) (\<lambda>chans.
     and_then (choice chans (d_channel d)) (\<lambda>ch.
     and_then (randint 0 (duration_minutes p) (d_offset d)) (\<lambda>time_offset.
     and_then (choice (account_ids p) (d_account d)) (\<lambda>acct.
     and_then (randint 1000 9999 (d_merchant d)) (\<lambda>m.
     and_then (lookup (md_merchant_categories (fp_metadata p))) (\<lambda>cats.
     and_then (choice cats (d_category d)) (\<lambda>cat.
       Inr \<lparr>pt_transaction_type = ONLINE_PURCHASE,
            amount = py_round_to 2 (uniform lo hi (d_amount d)),
            currency = ''USD'',
            description = ''Card Test Transaction #'' @ str_int (int i + 1),
            channel = ch,
            from_account_id = Some acct,
            to_account_id = None,
            merchant_id = Some (''TEST_MERCHANT_'' @ str_int m),
            merchant_category = Some cat,
            reference = Some (''CARDTEST_'' @ fraud_id p @ ''_'' @ str_int (int i + 1)),
            timestamp = start_time p + time_offset * microseconds_per_minute,
            metadata =
              [''fraud_pattern'' \<mapsto> MStr ''card_testing'',
               ''test_sequence'' \<mapsto> MInt (int i + 1),
               ''rapid_succession'' \<mapsto> MBool True]\<rparr>))))))))"

definition velocity_transaction ::
  "fraud_profile \<Rightarrow> nat \<Rightarrow> iter_draws \<Rightarrow> py_error + pending_transaction" where
  "velocity_transaction p i d =
     and_then (lookup (md_amount_range (fp_metadata p))) (\<lambda>(lo, hi).
     and_then (randint 0 (duration_minutes p * 60) (d_offset d)) (\<lambda>time_offset_seconds.
     and_then (lookup (md_preferred_channels (fp_metadata p))) (\<lambda>chans.
     and_then (choice chans (d_channel d)) (\<lambda>ch.
     and_then (choice (account_ids p) (d_account d)) (\<lambda>acct.
       Inr \<lparr>pt_transaction_type = WITHDRAWAL,
            amount = py_round_to 2 (uniform lo hi (d_amount d)),
            currency = ''USD'',
            description = ''Rapid Transaction #'' @ str_int (int i + 1),
            channel = ch,
            from_account_id = Some acct,
            to_account_id = None,
            merchant_id = None,
            merchant_category = None,
            reference = Some (''VELOCITY_'' @ fraud_id p @ ''_'' @ str_int (int i + 1)),
            timestamp = start_time p + time_offset_seconds * 1000000,
            metadata =
              [''fraud_pattern'' \<mapsto> MStr ''velocity_attack'',
               ''burst_sequence'' \<mapsto> MInt (int i + 1),
               ''time_window_minutes'' \<mapsto> MInt (duration_minutes p)]\<rparr>)))))"

definition large_amount_transaction ::
  "fraud_profile \<Rightarrow> nat \<Rightarrow> iter_draws \<Rightarrow> py_error + pending_transaction" where
  "large_amount_transaction p i d =
     and_then (lookup (md_amount_range (fp_metadata p))) (\<lambda>(lo, hi).
     and_then (randint 0 (duration_minutes p) (d_offset d)) (\<lambda>time_offset_minutes.
     and_then (choice [WIRE, ONLINE] (d_channel d)) (\<lambda>ch.
     and_then (choice (account_ids p) (d_account d)) (\<lambda>acct.
       Inr \<lparr>pt_transaction_type = TRANSFER,
            amount = py_round_to 2 (uniform lo hi (d_amount d)),
            currency = ''USD'',
            description = ''Large Amount Transfer #'' @ str_int (int i + 1),
            channel = ch,
            from_account_id = Some acct,
            to_account_id = None,
            merchant_id = None,
            merchant_category = None,
            reference = Some (''LARGE_'' @ fraud_id p @ ''_'' @ str_int (int i + 1)),
            timestamp = start_time p + time_offset_minutes * microseconds_per_minute,
            metadata =
              [''fraud_pattern'' \<mapsto> MStr ''large_amount'',
               ''amount_threshold_breach'' \<mapsto> MBool (uniform lo hi (d_amount d) > 10000),
               ''unusual_timing'' \<mapsto>
                  MBool (md_timing (fp_metadata p) = Some ''outside_normal_hours'')]\<rparr>))))"

text \<open>The loop shared by \<open>_generate_card_testing_transactions\<close>,
  \<open>_generate_velocity_transactions\<close> and \<open>_generate_large_amount_transactions\<close>:
  \<open>for i in range(metadata["transaction_count"])\<close>, where a candidate whose
  \<open>random.random()\<close> exceeds the success rate is skipped by \<open>continue\<close>, and any other
  candidate is built by \<open>build\<close> and appended.\<close>

fun gated_loop ::
  "(fraud_profile \<Rightarrow> nat \<Rightarrow> iter_draws \<Rightarrow> py_error + pending_transaction)
     \<Rightarrow> fraud_profile \<Rightarrow> (nat \<Rightarrow> iter_draws) \<Rightarrow> nat list \<Rightarrow> pending_transaction list
     \<Rightarrow> py_error + pending_transaction list" where
  "gated_loop build p draws [] transactions = Inr transactions"
| "gated_loop build p draws (i # rest) transactions =
     (if d_roll (draws i) > success_rate p
      then gated_loop build p draws rest transactions
      else and_then (build p i (draws i))
             (\<lambda>transaction. gated_loop build p draws rest (transactions @ [transaction])))"

definition generate_card_testing_transactions ::
  "fraud_profile \<Rightarrow> int \<Rightarrow> gen_draws \<Rightarrow> py_error + pending_transaction list" where
  "generate_card_testing_transactions p current_time draws =
     and_then (lookup (md_transaction_count (fp_metadata p)))
       (\<lambda>n. gated_loop card_testing_transaction p (g_iter draws) (py_range n) [])"

definition generate_velocity_transactions ::
  "fraud_profile \<Rightarrow> int \<Rightarrow> gen_draws \<Rightarrow> py_error + pending_transaction list" where
  "generate_velocity_transactions p current_time draws =
     and_then (lookup (md_transaction_count (fp_metadata p)))
       (\<lambda>n. gated_loop velocity_transaction p (g_iter draws) (py_range n) [])"

definition generate_large_amount_transactions ::
  "fraud_profile \<Rightarrow> int \<Rightarrow> gen_draws \<Rightarrow> py_error + pending_transaction list" where
  "generate_large_amount_transactions p current_time draws =
     and_then (lookup (md_transaction_count (fp_metadata p)))
       (\<lambda>n. gated_loop large_amount_transaction p (g_iter draws) (py_range n) [])"

text \<open>A loop that builds a transaction in every iteration, as the other generators
  have it.\<close>

fun plain_loop ::
  "(nat \<Rightarrow> iter_draws \<Rightarrow> py_error + pending_transaction)
     \<Rightarrow> (nat \<Rightarrow> iter_draws) \<Rightarrow> nat list \<Rightarrow> pending_transaction list
     \<Rightarrow> py_error + pending_transaction list" where
  "plain_loop build draws [] transactions = Inr transactions"
| "plain_loop build draws (i # rest) transactions =
     and_then (build i (draws i))
       (\<lambda>transaction. plain_loop build draws rest (transactions @ [transaction]))"

definition unusual_location_transaction ::
  "fraud_profile \<Rightarrow> location \<Rightarrow> nat \<Rightarrow> iter_draws \<Rightarrow> py_error + pending_transaction" where
  "unusual_location_transaction p suspicious_location i d =
     and_then (lookup (md_amount_range (fp_metadata p))) (\<lambda>(lo, hi).
     and_then (randint 0 (duration_minutes p) (d_offset d)) (\<lambda>time_offset.
     and_then (choice (account_ids p) (d_account d)) (\<lambda>acct.
     and_then (randint 1000 9999 (d_merchant d)) (\<lambda>m.
       Inr \<lparr>pt_transaction_type = SHOPPING,
            amount = py_round_to 2 (uniform lo hi (d_amount d)),
            currency = ''USD'',
            description = ''International Purchase '' @ str_int (int i + 1),
            channel = CARD,
            from_account_id = Some acct,
            to_account_id = None,
            merchant_id = Some (''INTL_MERCHANT_'' @ str_int m),
            merchant_category = Some ''international'',
            reference = Some (''UNUSUAL_LOC_'' @ fraud_id p @ ''_'' @ str_int (int i + 1)),
            timestamp = start_time p + time_offset * microseconds_per_minute,
            metadata =
              [''fraud_pattern'' \<mapsto> MStr ''unusual_location'',
               ''transaction_country'' \<mapsto> MStr (loc_country suspicious_location),
               ''transaction_city'' \<mapsto> MStr (loc_city suspicious_location),
               ''location_risk_score'' \<mapsto> MReal (loc_risk_score suspicious_location),
               ''geographic_anomaly'' \<mapsto> MBool True]\<rparr>))))"

definition generate_unusual_location_transactions ::
  "fraud_profile \<Rightarrow> int \<Rightarrow> gen_draws \<Rightarrow> py_error + pending_transaction list" where
  "generate_unusual_location_transactions p current_time draws =
     and_then (lookup (md_suspicious_location (fp_metadata p))) (\<lambda>suspicious_location.
     and_then (lookup (md_transaction_count (fp_metadata p))) (\<lambda>n.
       plain_loop (unusual_location_transaction p suspicious_location) (g_iter draws)
         (py_range n) []))"

definition generic_fraud_transaction ::
  "fraud_profile \<Rightarrow> int \<Rightarrow> nat \<Rightarrow> iter_draws \<Rightarrow> py_error + pending_transaction" where
  "generic_fraud_transaction p current_time i d =
     and_then (choice [ONLINE, CARD] (d_channel d)) (\<lambda>ch.
     and_then (choice (account_ids p) (d_account d)) (\<lambda>acct.
       Inr \<lparr>pt_transaction_type = WITHDRAWAL,
            amount = py_round_to 2 (uniform 100 5000 (d_amount d)),
            currency = ''USD'',
            description = ''Suspicious Transaction '' @ str_int (int i + 1),
            channel = ch,
            from_account_id = Some acct,
            to_account_id = None,
            merchant_id = None,
            merchant_category = None,
            reference = Some (''GENERIC_'' @ fraud_id p @ ''_'' @ str_int (int i + 1)),
            timestamp = current_time,
            metadata =
              [''fraud_pattern'' \<mapsto> MStr ''generic_suspicious'',
               ''anomaly_score'' \<mapsto> MReal (uniform 0.6 1 (d_variation d))]\<rparr>))"

definition generate_generic_fraud_transactions ::
  "fraud_profile \<Rightarrow> int \<Rightarrow> gen_draws \<Rightarrow> py_error + pending_transaction list" where
  "generate_generic_fraud_transactions p current_time draws =
     and_then (randint 2 5 (g_count draws))
       (\<lambda>n. plain_loop (generic_fraud_transaction p current_time) (g_iter draws) (py_range n) [])"

text \<open>\<open>random.shuffle\<close>: for \<open>i\<close> from the last position down to 1, the element at
  \<open>i\<close> is swapped with the element at a drawn position \<open>j \<le> i\<close>.\<close>

fun shuffle_from :: "nat \<Rightarrow> 'a list \<Rightarrow> (nat \<Rightarrow> nat) \<Rightarrow> 'a list" where
  "shuffle_from 0 xs picks = xs"
| "shuffle_from (Suc i) xs picks =
     (let j = picks (Suc i) mod (Suc i + 1)
      in shuffle_from i (xs[Suc i := xs ! j, j := xs ! Suc i]) picks)"

definition shuffle :: "'a list \<Rightarrow> (nat \<Rightarrow> nat) \<Rightarrow> 'a list" where
  "shuffle xs picks = shuffle_from (length xs - 1) xs picks"

text \<open>The loop of \<open>_generate_layering_transactions\<close> over the hops still to run;
  \<open>break\<close> returns the transactions built so far.\<close>

fun layering_loop ::
  "fraud_profile \<Rightarrow> string list \<Rightarrow> int \<Rightarrow> (nat \<Rightarrow> iter_draws) \<Rightarrow> nat list
     \<Rightarrow> pending_transaction list \<Rightarrow> py_error + pending_transaction list" where
  "layering_loop p accts hops draws [] transactions = Inr transactions"
| "layering_loop p accts hops draws (hop # rest) transactions =
     (if int hop \<ge> int (length accts) - 1 then Inr transactions
      else
        and_then (lookup (md_amounts (fp_metadata p))) (\<lambda>amounts.
        (let d = draws hop;
             base = (if hop < length amounts then amounts ! hop
                     else uniform 1000 25000 (d_amount d));
             amt = base * (1 + uniform (- 0.1) 0.1 (d_variation d))
         in and_then (randint 10 60 (d_offset d)) (\<lambda>k.
            and_then (choice [ONLINE, WIRE] (d_channel d)) (\<lambda>ch.
              layering_loop p accts hops draws rest
                (transactions @
                  [\<lparr>pt_transaction_type = TRANSFER,
                    amount = py_round_to 2 amt,
                    currency = ''USD'',
                    description = ''Layer Transfer '' @ str_int (int hop + 1),
                    channel = ch,
                    from_account_id = Some (accts ! hop),
                    to_account_id = Some (accts ! (hop + 1)),
                    merchant_id = None,
                    merchant_category = None,
                    reference = Some (''LAYER_'' @ fraud_id p @ ''_'' @ str_int (int hop + 1)),
                    timestamp = start_time p + (int hop * k) * microseconds_per_minute,
                    metadata =
                      [''fraud_pattern'' \<mapsto> MStr ''layering'',
                       ''hop_sequence'' \<mapsto> MInt (int hop + 1),
                       ''total_hops'' \<mapsto> MInt hops,
                       ''obfuscation'' \<mapsto> MStr ''amount_timing_variation'']\<rparr>]))))))"

definition generate_layering_transactions ::
  "fraud_profile \<Rightarrow> int \<Rightarrow> gen_draws \<Rightarrow> py_error + pending_transaction list" where
  "generate_layering_transactions p current_time draws =
     (let accts = shuffle (account_ids p) (g_shuffle draws)
      in and_then (lookup (md_hops (fp_metadata p)))
           (\<lambda>hops. layering_loop p accts hops (g_iter draws) (py_range hops) []))"

text \<open>Account takeover: the phase is found by adding up phase durations, a duration
  given as a pair being drawn with \<open>randint\<close>.\<close>

fun find_phase ::
  "phase list \<Rightarrow> real \<Rightarrow> int \<Rightarrow> (nat \<Rightarrow> nat) \<Rightarrow> nat \<Rightarrow> py_error + phase option" where
  "find_phase [] elapsed_minutes cumulative_duration picks k = Inr None"
| "find_phase (ph # rest) elapsed_minutes cumulative_duration picks k =
     and_then
       (case ph_duration_minutes ph of
          None \<Rightarrow> randint 30 180 (picks k)
        | Some (RangeVal a b) \<Rightarrow> randint a b (picks k)
        | Some (IntVal n) \<Rightarrow> Inr n)
       (\<lambda>duration.
          if elapsed_minutes \<le> of_int (cumulative_duration + duration) then Inr (Some ph)
          else find_phase rest elapsed_minutes (cumulative_duration + duration) picks (k + 1))"

text \<open>\<open>current_phase.get("transaction_count", random.randint(a, b))\<close> used as the
  argument of \<open>range\<close>: the default is drawn in any case, and an entry that is a pair
  makes \<open>range\<close> raise \<open>TypeError\<close>.\<close>

definition phase_count :: "phase \<Rightarrow> int \<Rightarrow> int \<Rightarrow> nat \<Rightarrow> py_error + int" where
  "phase_count ph a b k =
     and_then (randint a b k) (\<lambda>dflt.
       case ph_transaction_count ph of
         None \<Rightarrow> Inr dflt
       | Some (IntVal n) \<Rightarrow> Inr n
       | Some (RangeVal _ _) \<Rightarrow> Inl TypeError)"

definition takeover_test_transaction ::
  "fraud_profile \<Rightarrow> phase \<Rightarrow> int \<Rightarrow> nat \<Rightarrow> iter_draws \<Rightarrow> py_error + pending_transaction" where
  "takeover_test_transaction p ph current_time i d =
     (let (lo, hi) = (case ph_amount_range ph of None \<Rightarrow> (10, 100) | Some r \<Rightarrow> r)
      in and_then (choice (account_ids p) (d_account d)) (\<lambda>acct.
       Inr \<lparr>pt_transaction_type = WITHDRAWAL,
            amount = py_round_to 2 (uniform lo hi (d_amount d)),
            currency = ''USD'',
            description = ''Test Transaction #'' @ str_int (int i + 1),
            channel = ONLINE,
            from_account_id = Some acct,
            to_account_id = None,
            merchant_id = None,
            merchant_category = None,
            reference = Some (''ATO_TEST_'' @ fraud_id p @ ''_'' @ str_int (int i + 1)),
            timestamp = current_time,
            metadata =
              [''fraud_pattern'' \<mapsto> MStr ''account_takeover'',
               ''phase'' \<mapsto> MStr ''testing'',
               ''location_change'' \<mapsto>
                  MBool (case md_location_change (fp_metadata p) of None \<Rightarrow> False | Some b \<Rightarrow> b),
               ''device_change'' \<mapsto>
                  MBool (case md_device_change (fp_metadata p) of None \<Rightarrow> False | Some b \<Rightarrow> b)]\<rparr>))"

definition takeover_drain_transaction ::
  "fraud_profile \<Rightarrow> phase \<Rightarrow> int \<Rightarrow> nat \<Rightarrow> iter_draws \<Rightarrow> py_error + pending_transaction" where
  "takeover_drain_transaction p ph current_time i d =
     (let (lo, hi) = (case ph_amount_range ph of None \<Rightarrow> (1000, 10000) | Some r \<Rightarrow> r)
      in and_then (choice (account_ids p) (d_account d)) (\<lambda>acct.
       Inr \<lparr>pt_transaction_type = TRANSFER,
            amount = py_round_to 2 (uniform lo hi (d_amount d)),
            currency = ''USD'',
            description = ''Account Drain #'' @ str_int (int i + 1),
            channel = ONLINE,
            from_account_id = Some acct,
            to_account_id = None,
            merchant_id = None,
            merchant_category = None,
            reference = Some (''ATO_DRAIN_'' @ fraud_id p @ ''_'' @ str_int (int i + 1)),
            timestamp = current_time,
            metadata =
              [''fraud_pattern'' \<mapsto> MStr ''account_takeover'',
               ''phase'' \<mapsto> MStr ''draining'',
               ''location_change'' \<mapsto> MBool True,
               ''device_change'' \<mapsto> MBool True,
               ''suspicious_location'' \<mapsto>
                  (case md_suspicious_location (fp_metadata p) of
                     None \<Rightarrow> MNone
                   | Some l \<Rightarrow> MLocation l)]\<rparr>))"

definition generate_account_takeover_transactions ::
  "fraud_profile \<Rightarrow> int \<Rightarrow> gen_draws \<Rightarrow> py_error + pending_transaction list" where
  "generate_account_takeover_transactions p current_time draws =
     and_then (lookup (md_phases (fp_metadata p))) (\<lambda>phases.
       (let elapsed_minutes = of_int (current_time - start_time p) / 1000000 / 60
        in and_then (find_phase phases elapsed_minutes 0 (g_phase draws) 0) (\<lambda>current_phase.
             case current_phase of
               None \<Rightarrow> Inr []
             | Some ph \<Rightarrow>
                 if ph_type ph = ''small_test''
                 then and_then (phase_count ph 2 5 (g_count draws)) (\<lambda>n.
                        plain_loop (takeover_test_transaction p ph current_time)
                          (g_iter draws) (py_range n) [])
                 else if ph_type ph = ''drain_account''
                 then and_then (phase_count ph 3 10 (g_count draws)) (\<lambda>n.
                        plain_loop (takeover_drain_transaction p ph current_time)
                          (g_iter draws) (py_range n) [])
                 else Inr [])))"

text \<open>\<open>generate_fraud_transactions\<close>: nothing outside the active interval of the
  profile; inside it the generator of the profile's type runs, and every transaction it
  returns is marked as fraudulent.\<close>

definition mark_fraud :: "fraud_profile \<Rightarrow> pending_transaction \<Rightarrow> pending_transaction" where
  "mark_fraud p txn =
     txn\<lparr>metadata := (metadata txn)
            (''is_fraud'' \<mapsto> MBool True,
             ''fraud_type'' \<mapsto> MStr (fraud_type_value (fp_fraud_type p)),
             ''fraud_id'' \<mapsto> MStr (fraud_id p),
             ''sophistication'' \<mapsto> MReal (sophistication p))\<rparr>"

definition generate_fraud_transactions ::
  "fraud_profile \<Rightarrow> int \<Rightarrow> gen_draws \<Rightarrow> py_error + pending_transaction list" where
  "generate_fraud_transactions p current_time draws =
     (if current_time < start_time p \<or> current_time > end_time p then Inr []
      else
        and_then
          (case fp_fraud_type p of
             CARD_TESTING \<Rightarrow> generate_card_testing_transactions p current_time draws
           | VELOCITY_ATTACK \<Rightarrow> generate_velocity_transactions p current_time draws
           | LARGE_AMOUNT \<Rightarrow> generate_large_amount_transactions p current_time draws
           | ACCOUNT_TAKEOVER \<Rightarrow> generate_account_takeover_transactions p current_time draws
           | LAYERING \<Rightarrow> generate_layering_transactions p current_time draws
           | STRUCTURING \<Rightarrow> generate_structuring_transactions p current_time (g_iter draws)
           | UNUSUAL_LOCATION \<Rightarrow> generate_unusual_location_transactions p current_time draws
           | _ \<Rightarrow> generate_generic_fraud_transactions p current_time draws)
          (\<lambda>transactions. Inr (map (mark_fraud p) transactions)))"

subsection \<open>Fraud-pattern setup (engine.py, SimulationEngine._setup_fraud_patterns)\<close>

text \<open>The entries of \<open>FraudPatternConfig\<close> and \<open>FraudConfig\<close> that the setup reads.
  \<open>attack_window\<close> is an optional list of hours.\<close>

record fraud_pattern_config =
  pc_type :: string
  pc_weight :: real
  pc_intensity :: real

record fraud_config =
  patterns :: "fraud_pattern_config list"
  attack_window :: "int list option"

text \<open>The draws of the setup for one pattern: the positions drawn by \<open>random.sample\<close>
  and, for the \<open>i\<close>-th target customer, the \<open>random()\<close> behind \<open>random.uniform\<close> of the
  attack hour.\<close>

record pattern_draws =
  pd_sample :: "nat \<Rightarrow> nat"
  pd_hours :: "nat \<Rightarrow> real"

text \<open>The two statements that select the target customers of a pattern.\<close>

definition num_targets :: "nat \<Rightarrow> real \<Rightarrow> int" where
  "num_targets population_size weight = max 1 (py_int (real population_size * weight))"

definition select_targets ::
  "customer_profile list \<Rightarrow> real \<Rightarrow> (nat \<Rightarrow> nat) \<Rightarrow> py_error + customer_profile list" where
  "select_targets customers weight picks =
     sample customers (num_targets (length customers) weight) picks"

text \<open>\<open>timedelta(hours=h)\<close> for a float \<open>h\<close>, rounded to a whole microsecond.\<close>

definition timedelta_hours :: "real \<Rightarrow> int" where
  "timedelta_hours h = py_round (h * 3600000000)"

text \<open>The attack time of one target: inside the attack window if one is configured
  (unpacking a list that has not exactly two elements raises \<open>ValueError\<close>), else between
  hour 1 and hour \<open>duration_hours - 1\<close> of the simulation.\<close>

definition attack_time :: "fraud_config \<Rightarrow> int \<Rightarrow> int \<Rightarrow> real \<Rightarrow> py_error + int" where
  "attack_time cfg duration_hours sim_start u =
     (if truthy (attack_window cfg)
      then (case the (attack_window cfg) of
              [start_hour, end_hour] \<Rightarrow>
                Inr (sim_start + timedelta_hours (uniform (of_int start_hour) (of_int end_hour) u))
            | _ \<Rightarrow> Inl ValueError)
      else Inr (sim_start + timedelta_hours (uniform 1 (of_int duration_hours - 1) u)))"

text \<open>The loop \<open>for i, customer in enumerate(target_customers)\<close>. The call
  \<open>self.fraud_generator.generate_fraud_attack(...)\<close> is the argument \<open>gen\<close>, applied to
  the index of the target, the fraud type, the one-customer list, the attack time and
  the intensity; the profile it returns is appended to the generator's active profiles
  (\<open>add_fraud_profile\<close>), and an exception leaves the setup.\<close>

fun schedule_attacks ::
  "(nat \<Rightarrow> fraud_type \<Rightarrow> customer_profile list \<Rightarrow> int \<Rightarrow> real \<Rightarrow> py_error + fraud_profile)
     \<Rightarrow> fraud_config \<Rightarrow> int \<Rightarrow> int \<Rightarrow> fraud_type \<Rightarrow> real \<Rightarrow> (nat \<Rightarrow> real)
     \<Rightarrow> nat \<Rightarrow> customer_profile list \<Rightarrow> fraud_profile list
     \<Rightarrow> py_error + fraud_profile list" where
  "schedule_attacks gen cfg duration_hours sim_start ftype intens hours i [] active =
     Inr active"
| "schedule_attacks gen cfg duration_hours sim_start ftype intens hours i (customer # rest) active =
     (case attack_time cfg duration_hours sim_start (hours i) of
        Inl e \<Rightarrow> Inl e
      | Inr t \<Rightarrow>
         (case gen i ftype [customer] t intens of
            Inl e \<Rightarrow> Inl e
          | Inr fraud_profile \<Rightarrow>
              schedule_attacks gen cfg duration_hours sim_start ftype intens hours (i + 1) rest
                (active @ [fraud_profile])))"

text \<open>The body of \<open>for pattern_config in fraud_config.patterns\<close> for one pattern.\<close>

definition setup_fraud_pattern ::
  "(nat \<Rightarrow> fraud_type \<Rightarrow> customer_profile list \<Rightarrow> int \<Rightarrow> real \<Rightarrow> py_error + fraud_profile)
     \<Rightarrow> fraud_config \<Rightarrow> int \<Rightarrow> int \<Rightarrow> customer_profile list \<Rightarrow> fraud_pattern_config
     \<Rightarrow> pattern_draws \<Rightarrow> fraud_profile list \<Rightarrow> py_error + fraud_profile list" where
  "setup_fraud_pattern gen cfg duration_hours sim_start customers pattern_config d active =
     (case FraudType (pc_type pattern_config) of
        Inl e \<Rightarrow> Inl e
      | Inr ftype \<Rightarrow>
         (case select_targets customers (pc_weight pattern_config) (pd_sample d) of
            Inl e \<Rightarrow> Inl e
          | Inr target_customers \<Rightarrow>
              schedule_attacks gen cfg duration_hours sim_start ftype
                (pc_intensity pattern_config) (pd_hours d) 0 target_customers active))"

text \<open>The whole setup: the patterns in order, pattern number \<open>k\<close> with the generator
  calls \<open>gen k\<close> and the draws \<open>draws k\<close>.\<close>

fun setup_patterns_from ::
  "(nat \<Rightarrow> nat \<Rightarrow> fraud_type \<Rightarrow> customer_profile list \<Rightarrow> int \<Rightarrow> real \<Rightarrow> py_error + fraud_profile)
     \<Rightarrow> fraud_config \<Rightarrow> int \<Rightarrow> int \<Rightarrow> customer_profile list \<Rightarrow> (nat \<Rightarrow> pattern_draws)
     \<Rightarrow> nat \<Rightarrow> fraud_pattern_config list \<Rightarrow> fraud_profile list
     \<Rightarrow> py_error + fraud_profile list" where
  "setup_patterns_from gen cfg duration_hours sim_start customers draws k [] active = Inr active"
| "setup_patterns_from gen cfg duration_hours sim_start customers draws k (pc # pcs) active =
     (case setup_fraud_pattern (gen k) cfg duration_hours sim_start customers pc (draws k) active of
        Inl e \<Rightarrow> Inl e
      | Inr active' \<Rightarrow>
          setup_patterns_from gen cfg duration_hours sim_start customers draws (k + 1) pcs active')"

definition setup_fraud_patterns ::
  "(nat \<Rightarrow> nat \<Rightarrow> fraud_type \<Rightarrow> customer_profile list \<Rightarrow> int \<Rightarrow> real \<Rightarrow> py_error + fraud_profile)
     \<Rightarrow> fraud_config \<Rightarrow> int \<Rightarrow> int \<Rightarrow> customer_profile list \<Rightarrow> (nat \<Rightarrow> pattern_draws)
     \<Rightarrow> fraud_profile list \<Rightarrow> py_error + fraud_profile list" where
  "setup_fraud_patterns gen cfg duration_hours sim_start customers draws active =
     setup_patterns_from gen cfg duration_hours sim_start customers draws 0 (patterns cfg) active"

subsection \<open>Example inputs\<close>

definition example_customer :: customer_profile where
  "example_customer =
     \<lparr>cp_customer_id = ''CUST_000001'', cp_first_name = ''Ada'', cp_last_name = ''Lovelace'',
      cp_email = ''ada@example.com'', cp_phone = ''555-0100'', cp_date_of_birth = 0,
      cp_address_line1 = ''1 Main St'', cp_city = ''Springfield'', cp_state = ''IL'',
      cp_postal_code = ''62701'', cp_country = ''US'', cp_income_level = Income_MEDIUM,
      cp_risk_profile = MEDIUM_RISK, cp_behavior_pattern = SPENDER,
      cp_life_stage = YOUNG_PROFESSIONAL, cp_credit_score = 700, cp_monthly_income = 5000,
      cp_monthly_expenses = 3000, cp_preferred_balance = 2000, cp_primary_channel = ''online'',
      transaction_frequency = 10, cp_international_activity = False,
      cp_high_risk_tolerance = False, cp_tech_savvy = True, cp_fraud_awareness = 1 / 2,
      cp_social_media_presence = True\<rparr>"



text \<open>The structuring profile that \<open>_generate_structuring_attack\<close> builds for one
  customer with one account when the scenario supplies the threshold \<open>T\<close>.\<close>

definition example_structuring_profile :: "real \<Rightarrow> fraud_profile" where
  "example_structuring_profile T =
     \<lparr>fraud_id = ''FRAUD_0_1000'', fp_fraud_type = STRUCTURING,
      customer_ids = [''CUST_000001''], account_ids = [''ACC_000001''],
      start_time = 0, duration_minutes = 60, intensity = 1, success_rate = 0.9,
      sophistication = 0.8,
      fp_metadata = empty_metadata
        \<lparr>md_target_amount := Some T, md_individual_max := Some 9999,
         md_transaction_count := Some \<lceil>T / 9999\<rceil>, md_is_smurfing := Some False\<rparr>\<rparr>"

definition example_draws :: "real \<Rightarrow> iter_draws" where
  "example_draws u =
     \<lparr>d_roll = u, d_amount = u, d_offset = 0, d_channel = 0, d_account = 0,
      d_merchant = 0, d_category = 0, d_variation = u\<rparr>"

text \<open>A card-testing profile and an unusual-location profile as
  \<open>_generate_card_testing\<close> and \<open>_generate_unusual_location_fraud\<close> build them, and
  draws in which the \<open>random.random()\<close> of iteration \<open>i\<close> is \<open>rolls i\<close>.\<close>

definition example_card_testing_profile :: fraud_profile where
  "example_card_testing_profile =
     \<lparr>fraud_id = ''FRAUD_0_2000'', fp_fraud_type = CARD_TESTING,
      customer_ids = [''CUST_000001''], account_ids = [''ACC_000001''],
      start_time = 0, duration_minutes = 10, intensity = 1, success_rate = 0.6,
      sophistication = 0.2,
      fp_metadata = empty_metadata
        \<lparr>md_transaction_count := Some 3, md_amount_range := Some (0.01, 5),
         md_preferred_channels := Some [CARD, ONLINE],
         md_merchant_categories := Some [''small_retail'', ''online'', ''gas_station'']\<rparr>\<rparr>"

definition example_unusual_location_profile :: fraud_profile where
  "example_unusual_location_profile =
     \<lparr>fraud_id = ''FRAUD_0_3000'', fp_fraud_type = UNUSUAL_LOCATION,
      customer_ids = [''CUST_000001''], account_ids = [''ACC_000001''],
      start_time = 0, duration_minutes = 30, intensity = 1, success_rate = 0.6,
      sophistication = 0.4,
      fp_metadata = empty_metadata
        \<lparr>md_suspicious_location :=
           Some \<lparr>loc_country = ''RU'', loc_city = ''Moscow'', loc_risk_score = 0.9\<rparr>,
         md_transaction_count := Some 2, md_amount_range := Some (100, 2000)\<rparr>\<rparr>"

definition example_gen_draws :: "(nat \<Rightarrow> real) \<Rightarrow> gen_draws" where
  "example_gen_draws rolls =
     \<lparr>g_iter = (\<lambda>i. example_draws (rolls i)), g_count = 0, g_shuffle = (\<lambda>_. 0),
      g_phase = (\<lambda>_. 0)\<rparr>"

section \<open>Properties\<close>

subsection \<open>Helper facts\<close>

lemma py_round_of_int: "py_round (of_int n) = n"
  by (simp add: py_round_def)

lemma py_round_zero: "py_round 0 = 0"
  using py_round_of_int [of 0] by simp

lemma td_mul_zero: "td_mul 0 m = 0"
  by (simp add: td_mul_def py_round_zero)

lemma td_mul_one: "td_mul d 1 = d"
  by (simp add: td_mul_def py_round_of_int)

lemma py_round_ge_floor: "\<lfloor>x\<rfloor> \<le> py_round x"
  by (simp add: py_round_def Let_def)

lemma py_round_le_ceiling: "py_round x \<le> \<lceil>x\<rceil>"
proof (cases "x = of_int \<lfloor>x\<rfloor>")
  case True
  then have "py_round x = \<lfloor>x\<rfloor>"
    by (simp add: py_round_def Let_def)
  then show ?thesis by (simp add: floor_le_ceiling)
next
  case False
  then have "\<lceil>x\<rceil> = \<lfloor>x\<rfloor> + 1"
    by (metis ceiling_altdef)
  then show ?thesis
    by (simp add: py_round_def Let_def)
qed

lemma py_round_lower: "x - 1 / 2 \<le> of_int (py_round x)"
  unfolding py_round_def Let_def by (auto; linarith)

lemma py_round_ge_int: "of_int k \<le> x \<Longrightarrow> k \<le> py_round x"
  using py_round_ge_floor [of x] by (metis le_floor_iff order_trans)

lemma py_round_le_int: "x \<le> of_int k \<Longrightarrow> py_round x \<le> k"
  using py_round_le_ceiling [of x] by (metis ceiling_le_iff order_trans)

lemma py_round_to_2_le_9999: "x \<le> 9999 \<Longrightarrow> py_round_to 2 x \<le> 9999"
proof -
  assume "x \<le> 9999"
  then have "x * 10 ^ 2 \<le> of_int 999900" by simp
  then have "py_round (x * 10 ^ 2) \<le> 999900" by (rule py_round_le_int)
  then have "real_of_int (py_round (x * 10 ^ 2)) \<le> 999900" by linarith
  then show ?thesis by (simp add: py_round_to_def)
qed

lemma py_round_to_2_ge_79992: "7999.2 \<le> x \<Longrightarrow> 7999.2 \<le> py_round_to 2 x"
proof -
  assume "7999.2 \<le> x"
  then have "of_int 799920 \<le> x * 10 ^ 2" by simp
  then have "799920 \<le> py_round (x * 10 ^ 2)" by (rule py_round_ge_int)
  then have "799920 \<le> real_of_int (py_round (x * 10 ^ 2))" by linarith
  then show ?thesis by (simp add: py_round_to_def)
qed

lemma py_round_to_2_lower: "x - 1 / 200 \<le> py_round_to 2 x"
proof -
  have "x * 10 ^ 2 - 1 / 2 \<le> of_int (py_round (x * 10 ^ 2))" by (rule py_round_lower)
  then show ?thesis by (simp add: py_round_to_def field_simps)
qed

lemma counter_value_record_counter:
  "enabled mc \<Longrightarrow> counter_value (record_counter mc name v now) k
     = (if k = name then counter_value mc name + v else counter_value mc k)"
  by (simp add: record_counter_def counter_value_def Let_def)

lemma record_counter_enabled: "enabled (record_counter mc name v now) = enabled mc"
  by (simp add: record_counter_def Let_def)

lemma record_fraud_decision_enabled:
  "enabled (record_fraud_decision mc p a now) = enabled mc"
  by (simp add: record_fraud_decision_def record_counter_enabled)

subsection \<open>The simulation clock\<close>

text \<open>While the clock is paused every reading is the same value, the anchor
  \<open>sim_start_time\<close>.\<close>

lemma clock_paused_constant:
  "get_current_sim_time (pause c t0) t = get_current_sim_time (pause c t0) t'"
  by (simp add: get_current_sim_time_def pause_def)

lemma clock_paused_value:
  "get_current_sim_time (pause c t0) t = sim_start_time c"
  by (simp add: get_current_sim_time_def pause_def)

text \<open>A pause from \<open>t0\<close> to \<open>t1\<close> is left out of the elapsed real time: the resumed
  clock reads at \<open>t + (t1 - t0)\<close> what the clock that never paused reads at \<open>t\<close>.\<close>

lemma clock_resume_excludes_pause:
  "\<not> paused c \<Longrightarrow>
     get_current_sim_time (resume (pause c t0) t1) (t + (t1 - t0)) = get_current_sim_time c t"
  by (simp add: get_current_sim_time_def pause_def resume_def Let_def algebra_simps)

text \<open>C1. The claim: while paused, \<open>get_current_sim_time\<close> returns one value, the
  simulated time at the moment \<open>pause()\<close> was called, and \<open>resume()\<close> leaves the pause
  interval out. The source returns \<open>sim_start_time\<close> while paused, which is the anchor
  of the last \<open>set_speed\<close> (or of the start), not the simulated time at the pause. A
  clock started at 0 with speed 1 reads 10 s at real time 10 s; paused at that instant,
  it reads 0 at real time 12 s, and 12 s - 2 s = 10 s again after the resume at 12 s.\<close>

theorem pause_reads_anchor_not_pause_time:
  "get_current_sim_time (clock_init 1 0 0) 10000000 = 10000000
   \<and> get_current_sim_time (pause (clock_init 1 0 0) 10000000) 12000000 = 0
   \<and> get_current_sim_time (resume (pause (clock_init 1 0 0) 10000000) 12000000) 12000000
       = 10000000"
  by (simp add: clock_init_def get_current_sim_time_def pause_def resume_def td_mul_one)

text \<open>C9. On an unpaused clock, \<open>set_speed(m)\<close> leaves the simulated time of that
  instant unchanged, the clock stays unpaused, and from then on simulated time advances
  at the new multiplier \<open>m\<close>. Since the clock \<open>c\<close> is arbitrary, this holds at every call
  of a sequence of calls.\<close>

theorem set_speed_continuous:
  "\<not> paused c \<Longrightarrow>
     get_current_sim_time (set_speed c m now now) now = get_current_sim_time c now
   \<and> \<not> paused (set_speed c m now now)
   \<and> get_current_sim_time (set_speed c m now now) t
       = get_current_sim_time c now + td_mul (t - now) m"
  by (simp add: set_speed_def get_current_sim_time_def Let_def td_mul_zero)

theorem set_speed_continuous_witness:
  "\<not> paused (clock_init 1 0 0)
   \<and> get_current_sim_time (set_speed (clock_init 1 0 0) 60 5000000 5000000) 5000000 = 5000000
   \<and> get_current_sim_time (set_speed (clock_init 1 0 0) 60 5000000 5000000) 6000000 = 65000000"
proof -
  have h: "\<not> paused (clock_init 1 0 0)"
    by (simp add: clock_init_def)
  have a: "get_current_sim_time (clock_init 1 0 0) 5000000 = 5000000"
    by (simp add: clock_init_def get_current_sim_time_def td_mul_one)
  have b: "td_mul (6000000 - 5000000) 60 = 60000000"
    using py_round_of_int [of 60000000] by (simp add: td_mul_def)
  show ?thesis
    using h a b set_speed_continuous [OF h, of 60 5000000 6000000] by simp
qed

text \<open>With the two wall-clock reads of \<open>set_speed\<close> kept apart, the reading after the
  call differs from the reading before it by the real time between the reads, scaled.\<close>

lemma set_speed_two_reads:
  "\<not> paused c \<Longrightarrow>
     get_current_sim_time (set_speed c m now1 now2) t
       = get_current_sim_time c now1 + td_mul (t - now2) m"
  by (simp add: set_speed_def get_current_sim_time_def Let_def)

subsection \<open>Confusion-matrix accounting\<close>

text \<open>C2, as the claim states it, fails when the collector is disabled:
  \<open>record_counter\<close> returns at once and no counter moves.\<close>

theorem disabled_collector_counts_nothing:
  "counter_value
     (record_accuracy \<lparr>enabled = False, counters = Map.empty, time_series = Map.empty\<rparr>
        (Some ''DECLINE'') (Some True) 0) ''true_positives'' = 0"
  by (simp add: record_accuracy_def record_fraud_decision_def record_counter_def
      counter_value_def)

text \<open>C2, amended. With the collector enabled, one processed transaction moves exactly
  one of the four counters, by one: predicted fraud is "the upper-cased decision is
  REVIEW or DECLINE", actual fraud is the \<open>is_fraud\<close> flag of the metadata;
  \<open>true_positives\<close> when both hold, \<open>false_positives\<close> when predicted only,
  \<open>false_negatives\<close> when actual only, \<open>true_negatives\<close> when neither.\<close>

theorem fraud_decision_confusion_matrix:
  assumes "enabled mc"
    and "p = (upper (case action of None \<Rightarrow> ''APPROVE'' | Some d \<Rightarrow> d) = ''REVIEW''
            \<or> upper (case action of None \<Rightarrow> ''APPROVE'' | Some d \<Rightarrow> d) = ''DECLINE'')"
    and "a = (is_fraud = Some True)"
    and "mc' = record_accuracy mc action is_fraud now"
  shows "counter_value mc' ''true_positives''
           = counter_value mc ''true_positives'' + (if p \<and> a then 1 else 0)
       \<and> counter_value mc' ''false_positives''
           = counter_value mc ''false_positives'' + (if p \<and> \<not> a then 1 else 0)
       \<and> counter_value mc' ''false_negatives''
           = counter_value mc ''false_negatives'' + (if \<not> p \<and> a then 1 else 0)
       \<and> counter_value mc' ''true_negatives''
           = counter_value mc ''true_negatives'' + (if \<not> p \<and> \<not> a then 1 else 0)
       \<and> enabled mc'"
proof -
  have p: "predicted_fraud_of action = p"
    using assms(2) by (simp add: predicted_fraud_of_def Let_def)
  have a: "actual_fraud_of is_fraud = a"
    using assms(3) by (cases is_fraud) (auto simp: actual_fraud_of_def)
  have mc': "mc' = record_fraud_decision mc p a now"
    using assms(4) p a by (simp add: record_accuracy_def)
  show ?thesis
    unfolding mc' using assms(1)
    by (simp add: record_fraud_decision_def counter_value_record_counter
        record_counter_enabled)
qed

theorem fraud_decision_confusion_matrix_witness:
  "enabled \<lparr>enabled = True, counters = Map.empty, time_series = Map.empty\<rparr>
   \<and> counter_value
        (record_accuracy \<lparr>enabled = True, counters = Map.empty, time_series = Map.empty\<rparr>
           (Some ''decline'') (Some True) 0) ''true_positives'' = 1
   \<and> counter_value
        (record_accuracy \<lparr>enabled = True, counters = Map.empty, time_series = Map.empty\<rparr>
           (Some ''decline'') (Some True) 0) ''false_positives'' = 0
   \<and> counter_value
        (record_accuracy \<lparr>enabled = True, counters = Map.empty, time_series = Map.empty\<rparr>
           (Some ''decline'') (Some True) 0) ''false_negatives'' = 0
   \<and> counter_value
        (record_accuracy \<lparr>enabled = True, counters = Map.empty, time_series = Map.empty\<rparr>
           (Some ''decline'') (Some True) 0) ''true_negatives'' = 0"
proof -
  let ?mc = "\<lparr>enabled = True, counters = Map.empty, time_series = Map.empty\<rparr>"
  have e: "enabled ?mc" by simp
  have u: "upper ''decline'' = ''DECLINE''"
    by (simp add: upper_def upper_char_def)
  have z: "counter_value ?mc k = 0" for k
    by (simp add: counter_value_def)
  show ?thesis
    using fraud_decision_confusion_matrix [OF e, of True "Some ''decline''" True "Some True"
        "record_accuracy ?mc (Some ''decline'') (Some True) 0" 0] u z
    by simp
qed

subsection \<open>The mock fraud scorer\<close>

lemma mock_risk_score_range:
  "0 \<le> fst (mock_risk_score data h u) \<and> fst (mock_risk_score data h u) \<le> 1"
  by (simp add: mock_risk_score_def split_beta)

text \<open>C3. For every request, hour and draw, the clamped risk score lies in \<open>[0, 1]\<close>
  and the returned action is DECLINE exactly when it is at least 0.8, REVIEW exactly when
  it is in \<open>[0.5, 0.8)\<close>, and APPROVE exactly when it is below 0.5. (The \<open>risk_score\<close>
  entry of the response is this score rounded to three decimals.)\<close>

theorem mock_decision_thresholds:
  "0 \<le> fst (mock_risk_score data h u) \<and> fst (mock_risk_score data h u) \<le> 1
   \<and> (r_action (fst (mock_score_transaction st data h u)) = ''DECLINE'')
        = (fst (mock_risk_score data h u) \<ge> 0.8)
   \<and> (r_action (fst (mock_score_transaction st data h u)) = ''REVIEW'')
        = (0.5 \<le> fst (mock_risk_score data h u) \<and> fst (mock_risk_score data h u) < 0.8)
   \<and> (r_action (fst (mock_score_transaction st data h u)) = ''APPROVE'')
        = (fst (mock_risk_score data h u) < 0.5)
   \<and> r_risk_score (fst (mock_score_transaction st data h u))
        = py_round_to 3 (fst (mock_risk_score data h u))"
  using mock_risk_score_range [of data h u]
  by (simp add: mock_score_transaction_def Let_def split_beta)

subsection \<open>Retries\<close>

text \<open>For any \<open>max_retries = n\<close>, a transport that always answers with one 5xx status
  is tried \<open>n + 1\<close> times, with a sleep of \<open>2 ^ attempt\<close> seconds after each attempt
  but the last.\<close>

lemma request_attempts_always_5xx:
  assumes "500 \<le> code" and "k \<le> n"
  shows "request_attempts svc n (\<lambda>_. Response code d b) url [k..<Suc n] st tr =
     (Inl (APIError svc code (detail_or d ''Unknown error'')),
      st\<lparr>requests_failed := requests_failed st + 1,
         errors := errors st @ [StatusEntry code]\<rparr>,
      tr @ concat (map (\<lambda>a. [Request a, Sleep (2 ^ a)]) [k..<n]) @ [Request n])"
  using assms(2)
proof (induction "n - k" arbitrary: k tr)
  case 0
  then have k: "k = n" by simp
  have c: "\<not> (code = 200 \<or> code = 201)" "400 \<le> code" using assms(1) by auto
  show ?case using c by (simp add: k)
next
  case (Suc m)
  then have kn: "k < n" by simp
  have c: "\<not> (code = 200 \<or> code = 201)" "400 \<le> code" using assms(1) by auto
  have l: "[k..<Suc n] = k # [Suc k..<Suc n]" using kn by (simp add: upt_rec)
  have l2: "[k..<n] = k # [Suc k..<n]" using kn by (simp add: upt_rec)
  have ih: "request_attempts svc n (\<lambda>_. Response code d b) url [Suc k..<Suc n] st
        (tr @ [Request k] @ [Sleep (2 ^ k)]) =
     (Inl (APIError svc code (detail_or d ''Unknown error'')),
      st\<lparr>requests_failed := requests_failed st + 1,
         errors := errors st @ [StatusEntry code]\<rparr>,
      (tr @ [Request k] @ [Sleep (2 ^ k)])
        @ concat (map (\<lambda>a. [Request a, Sleep (2 ^ a)]) [Suc k..<n]) @ [Request n])"
    using Suc.hyps(2) kn by (intro Suc.hyps(1)) auto
  show ?case
    unfolding l l2 using c kn assms(1) ih by simp
qed

lemma make_request_always_5xx:
  assumes "500 \<le> code"
  shows "attempts_made (snd (snd (make_request svc n (\<lambda>_. Response code d b) url st))) = n + 1"
proof -
  have f: "filter is_request (concat (map (\<lambda>a. [Request a, Sleep (2 ^ a)]) xs))
      = map Request xs" for xs :: "nat list"
    by (induction xs) simp_all
  show ?thesis
    using request_attempts_always_5xx [OF assms, of 0 n svc d b url]
    by (simp add: make_request_def attempts_made_def f)
qed

lemma upt_0_4: "[0..<4] = [0, Suc 0, 2, 3]"
  by (simp add: upt_rec)

text \<open>C4. With \<open>max_retries = 3\<close>, for either connector: against a transport that
  always answers 503 the request is sent 4 times, with sleeps of 1, 2 and 4 seconds
  (\<open>2 ^ attempt\<close>) between the attempts, and the API error of the last response is
  raised; against a transport that always answers 404 it is sent once and the API error
  is raised at once, without a sleep.\<close>

theorem retry_exhaustion:
  "make_request svc 3 (\<lambda>_. Response 503 d b) url st =
     (Inl (APIError svc 503 (detail_or d ''Unknown error'')),
      st\<lparr>requests_sent := requests_sent st + 1, requests_failed := requests_failed st + 1,
         errors := errors st @ [StatusEntry 503]\<rparr>,
      [Request 0, Sleep 1, Request 1, Sleep 2, Request 2, Sleep 4, Request 3])
   \<and> attempts_made (snd (snd (make_request svc 3 (\<lambda>_. Response 503 d b) url st))) = 4
   \<and> make_request svc 3 (\<lambda>_. Response 404 d b) url st =
     (Inl (APIError svc 404 (detail_or d ''Client error'')),
      st\<lparr>requests_sent := requests_sent st + 1, requests_failed := requests_failed st + 1\<rparr>,
      [Request 0])
   \<and> attempts_made (snd (snd (make_request svc 3 (\<lambda>_. Response 404 d b) url st))) = 1"
  by (simp add: make_request_def upt_0_4 attempts_made_def)

subsection \<open>The mock core-banking connector\<close>

lemma format_06d_1: "format_06d 1 = ''000001''"
  by code_simp

text \<open>C10. A deposit to an account id that is not in the store returns state
  \<open>processed\<close> with the transaction id of the counter, advances the counter, and leaves
  the account store as it was; a lookup of the same id raises the 404 API error, before
  and after the deposit.\<close>

theorem deposit_unknown_account:
  assumes "accounts st (dd_account_id data) = None"
  shows "tr_state (fst (mock_deposit st data)) = ''processed''
       \<and> tr_transaction_id (fst (mock_deposit st data))
           = ''TXN_'' @ format_06d (next_transaction_id st)
       \<and> next_transaction_id (snd (mock_deposit st data)) = next_transaction_id st + 1
       \<and> accounts (snd (mock_deposit st data)) = accounts st
       \<and> mock_get_account st (dd_account_id data)
           = Inl (APIError Nexum 404 ''Account not found'')
       \<and> mock_get_account (snd (mock_deposit st data)) (dd_account_id data)
           = Inl (APIError Nexum 404 ''Account not found'')"
  using assms by (simp add: mock_deposit_def mock_get_account_def Let_def)

theorem deposit_unknown_account_witness:
  "accounts \<lparr>accounts = Map.empty, next_transaction_id = 1\<rparr>
       (dd_account_id \<lparr>dd_account_id = ''ACC_000007'', dd_amount = 250\<rparr>) = None
   \<and> tr_state (fst (mock_deposit \<lparr>accounts = Map.empty, next_transaction_id = 1\<rparr>
         \<lparr>dd_account_id = ''ACC_000007'', dd_amount = 250\<rparr>)) = ''processed''
   \<and> tr_transaction_id (fst (mock_deposit \<lparr>accounts = Map.empty, next_transaction_id = 1\<rparr>
         \<lparr>dd_account_id = ''ACC_000007'', dd_amount = 250\<rparr>)) = ''TXN_000001''
   \<and> next_transaction_id (snd (mock_deposit \<lparr>accounts = Map.empty, next_transaction_id = 1\<rparr>
         \<lparr>dd_account_id = ''ACC_000007'', dd_amount = 250\<rparr>)) = 2"
proof -
  let ?st = "\<lparr>accounts = Map.empty, next_transaction_id = 1\<rparr>"
  let ?d = "\<lparr>dd_account_id = ''ACC_000007'', dd_amount = 250\<rparr>"
  have h: "accounts ?st (dd_account_id ?d) = None" by simp
  show ?thesis
    using h deposit_unknown_account [OF h] format_06d_1 by simp
qed

subsection \<open>Structuring\<close>

text \<open>An invariant of the loop holds of its final state, where the loop condition is
  false.\<close>

lemma structuring_loop_invariant:
  assumes "structuring_loop p T M c draws rem seq txns = Inr (rem', seq', txns')"
    and "I rem seq txns"
    and "\<And>rem seq txns off acct ch.
       I rem seq txns \<Longrightarrow> rem > 0 \<Longrightarrow> seq < c \<Longrightarrow>
       I (rem - min rem (uniform (M * 0.8) M (d_amount (draws (nat seq))))) (seq + 1)
         (txns @ [structuring_transaction p T M (seq + 1)
            (min rem (uniform (M * 0.8) M (d_amount (draws (nat seq))))) off acct ch])"
  shows "I rem' seq' txns' \<and> \<not> (rem' > 0 \<and> seq' < c)"
  using assms
proof (induction p T M c draws rem seq txns rule: structuring_loop.induct)
  case (1 p T M c draws rem seq txns)
  show ?case
  proof (cases "rem > 0 \<and> seq < c")
    case False
    with "1.prems"(1,2) show ?thesis
      by (simp add: structuring_loop.simps [of p T M c draws rem seq txns])
  next
    case True
    let ?d = "draws (nat seq)"
    let ?amt = "min rem (uniform (M * 0.8) M (d_amount ?d))"
    from "1.prems"(1) True obtain off acct ch where
      r: "randint 0 (duration_minutes p div 60) (d_offset ?d) = Inr off"
      and a: "choice (account_ids p) (d_account ?d) = Inr acct"
      and c: "choice [BRANCH, ATM] (d_channel ?d) = Inr ch"
      and rec: "structuring_loop p T M c draws (rem - ?amt) (seq + 1)
          (txns @ [structuring_transaction p T M (seq + 1) ?amt off acct ch])
          = Inr (rem', seq', txns')"
      by (simp add: structuring_loop.simps [of p T M c draws rem seq txns] Let_def
          split: sum.splits)
    have I': "I (rem - ?amt) (seq + 1)
        (txns @ [structuring_transaction p T M (seq + 1) ?amt off acct ch])"
      using True by (intro "1.prems"(3) [OF "1.prems"(2)]) auto
    show ?thesis
      by (rule "1.IH" [OF True refl refl r a c rec I' "1.prems"(3)])
  qed
qed

lemma uniform_bounds:
  "a \<le> b \<Longrightarrow> 0 \<le> u \<Longrightarrow> u \<le> 1 \<Longrightarrow> a \<le> uniform a b u \<and> uniform a b u \<le> b"
proof -
  assume ab: "a \<le> b" and u0: "0 \<le> u" and u1: "u \<le> 1"
  have "0 \<le> (b - a) * u" using ab u0 by simp
  moreover have "(b - a) * u \<le> (b - a) * 1"
    using ab u1 by (intro mult_left_mono) auto
  ultimately show ?thesis by (simp add: uniform_def)
qed

lemma structuring_draw_bounds:
  "0 \<le> u \<Longrightarrow> u \<le> 1 \<Longrightarrow>
     39996 / 5 \<le> uniform (9999 * 0.8) 9999 u \<and> uniform (9999 * 0.8) 9999 u \<le> 9999"
  using uniform_bounds [of "9999 * 0.8" 9999 u] by simp

lemma structuring_transaction_amount:
  "amount (structuring_transaction p T M s amt off acct ch) = py_round_to 2 amt"
  by (simp add: structuring_transaction_def)

lemma structuring_loop_stop:
  "\<not> (rem > 0 \<and> seq < c) \<Longrightarrow>
     structuring_loop p T M c draws rem seq txns = Inr (rem, seq, txns)"
  by (subst structuring_loop.simps) auto

lemma structuring_loop_step:
  assumes "rem > 0" and "seq < c"
    and "randint 0 (duration_minutes p div 60) (d_offset (draws (nat seq))) = Inr off"
    and "choice (account_ids p) (d_account (draws (nat seq))) = Inr acct"
    and "choice [BRANCH, ATM] (d_channel (draws (nat seq))) = Inr ch"
  shows "structuring_loop p T M c draws rem seq txns =
     structuring_loop p T M c draws
       (rem - min rem (uniform (M * 0.8) M (d_amount (draws (nat seq))))) (seq + 1)
       (txns @ [structuring_transaction p T M (seq + 1)
          (min rem (uniform (M * 0.8) M (d_amount (draws (nat seq))))) off acct ch])"
  using assms by (subst structuring_loop.simps) (simp add: Let_def)

lemma structuring_loop_total:
  assumes "account_ids p \<noteq> []" and "0 \<le> duration_minutes p"
  shows "\<exists>r. structuring_loop p T M c draws rem seq txns = Inr r"
  using assms
proof (induction p T M c draws rem seq txns rule: structuring_loop.induct)
  case (1 p T M c draws rem seq txns)
  show ?case
  proof (cases "rem > 0 \<and> seq < c")
    case False
    then show ?thesis
      by (simp add: structuring_loop_stop)
  next
    case True
    let ?d = "draws (nat seq)"
    let ?amt = "min rem (uniform (M * 0.8) M (d_amount ?d))"
    have d60: "0 \<le> duration_minutes p div 60"
      using "1.prems"(2) by (simp add: pos_imp_zdiv_nonneg_iff)
    obtain off where r: "randint 0 (duration_minutes p div 60) (d_offset ?d) = Inr off"
      using d60 by (simp add: randint_def)
    obtain acct where a: "choice (account_ids p) (d_account ?d) = Inr acct"
      using "1.prems"(1) by (simp add: choice_def)
    obtain ch where c: "choice [BRANCH, ATM] (d_channel ?d) = Inr ch"
      by (simp add: choice_def)
    from "1.IH" [OF True refl refl r a c "1.prems"]
    obtain res where res: "structuring_loop p T M c draws (rem - ?amt) (seq + 1)
          (txns @ [structuring_transaction p T M (seq + 1) ?amt off acct ch]) = Inr res"
      by blast
    have "structuring_loop p T M c draws rem seq txns = Inr res"
      using True r a c res
      by (subst structuring_loop.simps [of p T M c draws rem seq txns]) (simp add: Let_def)
    then show ?thesis by blast
  qed
qed

lemma structuring_loop_amounts:
  assumes "structuring_loop p T 9999 c draws rem seq txns = Inr (rem', seq', txns')"
    and "\<forall>i. 0 \<le> d_amount (draws i) \<and> d_amount (draws i) \<le> 1"
    and "\<forall>t \<in> set txns. amount t \<le> 9999"
  shows "\<forall>t \<in> set txns'. amount t \<le> 9999"
proof -
  have "(\<forall>t \<in> set txns'. amount t \<le> 9999) \<and> \<not> (rem' > 0 \<and> seq' < c)"
  proof (rule structuring_loop_invariant
      [where I = "\<lambda>rem seq txns. \<forall>t \<in> set txns. amount t \<le> 9999", OF assms(1)])
    show "\<forall>t \<in> set txns. amount t \<le> 9999" by (rule assms(3))
  next
    fix rem :: real and seq :: int and txns :: "pending_transaction list" and off acct ch
    assume I: "\<forall>t \<in> set txns. amount t \<le> 9999"
    let ?u = "d_amount (draws (nat seq))"
    have "uniform (9999 * 0.8) 9999 ?u \<le> 9999"
      using structuring_draw_bounds [of ?u] assms(2) by blast
    then have "min rem (uniform (9999 * 0.8) 9999 ?u) \<le> 9999" by simp
    then have "py_round_to 2 (min rem (uniform (9999 * 0.8) 9999 ?u)) \<le> 9999"
      by (rule py_round_to_2_le_9999)
    with I show "\<forall>t \<in> set (txns @ [structuring_transaction p T 9999 (seq + 1)
            (min rem (uniform (9999 * 0.8) 9999 ?u)) off acct ch]). amount t \<le> 9999"
      by (simp add: structuring_transaction_amount)
  qed
  then show ?thesis by blast
qed

lemma structuring_step_arith_draw:
  fixes rem d ar k :: real
  assumes "39996 / 5 \<le> ar" and "d - 1 / 200 \<le> ar" and "1 \<le> k"
  shows "min (rem - k / 200) (39996 / 5 * k)
       \<le> ar + min (rem - d - (k - 1) / 200) (39996 / 5 * (k - 1))"
  using assms by argo

lemma structuring_step_arith_rest:
  fixes rem ar k :: real
  assumes "rem - 1 / 200 \<le> ar" and "1 \<le> k"
  shows "min (rem - k / 200) (39996 / 5 * k)
       \<le> ar + min (rem - rem - (k - 1) / 200) (39996 / 5 * (k - 1))"
  using assms by argo

lemma structuring_final_arith:
  fixes r k :: real
  assumes "r \<le> 0 \<or> k \<le> 0" and "r \<le> 0 \<longrightarrow> k \<le> 0 \<or> 0 \<le> k"
  shows "min (r - k / 200) (39996 / 5 * k) \<le> 0"
  using assms by argo

lemma structuring_loop_sum:
  assumes "structuring_loop p T 9999 c draws rem seq txns = Inr (rem', seq', txns')"
    and "\<forall>i. 0 \<le> d_amount (draws i) \<and> d_amount (draws i) \<le> 1"
  shows "sum_list (map amount txns)
           + min (rem - real_of_int (c - seq) / 200) (39996 / 5 * real_of_int (c - seq))
         \<le> sum_list (map amount txns')"
proof -
  define b where "b = sum_list (map amount txns)
           + min (rem - real_of_int (c - seq) / 200) (39996 / 5 * real_of_int (c - seq))"
  let ?I = "\<lambda>rem seq (txns :: pending_transaction list). b \<le> sum_list (map amount txns)
           + min (rem - real_of_int (c - seq) / 200) (39996 / 5 * real_of_int (c - seq))"
  have fin: "?I rem' seq' txns' \<and> \<not> (rem' > 0 \<and> seq' < c)"
  proof (rule structuring_loop_invariant [where I = ?I, OF assms(1)])
    show "?I rem seq txns" by (simp add: b_def)
  next
    fix rem :: real and seq :: int and txns :: "pending_transaction list" and off acct ch
    assume I: "?I rem seq txns" and rem: "rem > 0" and seq: "seq < c"
    let ?u = "d_amount (draws (nat seq))"
    let ?d = "uniform (9999 * 0.8) 9999 ?u"
    let ?amt = "min rem ?d"
    have d: "39996 / 5 \<le> ?d"
      using structuring_draw_bounds [of ?u] assms(2) by simp
    have lo: "?amt - 1 / 200 \<le> py_round_to 2 ?amt" by (rule py_round_to_2_lower)
    have k: "1 \<le> real_of_int (c - seq)" using seq by linarith
    have k': "real_of_int (c - (seq + 1)) = real_of_int (c - seq) - 1" by simp
    have step: "min (rem - real_of_int (c - seq) / 200) (39996 / 5 * real_of_int (c - seq))
        \<le> py_round_to 2 ?amt
          + min (rem - ?amt - (real_of_int (c - seq) - 1) / 200)
                (39996 / 5 * (real_of_int (c - seq) - 1))"
    proof (cases "?d \<le> rem")
      case True
      then have amt: "?amt = ?d" by simp
      have "7999.2 \<le> py_round_to 2 ?d"
        using d by (intro py_round_to_2_ge_79992) simp
      then have "39996 / 5 \<le> py_round_to 2 ?d" by simp
      then show ?thesis
        unfolding amt using lo [unfolded amt] k by (intro structuring_step_arith_draw)
    next
      case False
      then have amt: "?amt = rem" by simp
      show ?thesis
        unfolding amt using lo [unfolded amt] k by (intro structuring_step_arith_rest)
    qed
    show "?I (rem - ?amt) (seq + 1)
        (txns @ [structuring_transaction p T 9999 (seq + 1) ?amt off acct ch])"
      using I step unfolding k' by (simp add: structuring_transaction_amount)
  qed
  have "min (rem' - real_of_int (c - seq') / 200) (39996 / 5 * real_of_int (c - seq')) \<le> 0"
  proof (rule structuring_final_arith)
    show "rem' \<le> 0 \<or> real_of_int (c - seq') \<le> 0"
      using fin by (cases "seq' < c") auto
    show "rem' \<le> 0 \<longrightarrow> real_of_int (c - seq') \<le> 0 \<or> 0 \<le> real_of_int (c - seq')"
      by linarith
  qed
  with fin show ?thesis unfolding b_def by linarith
qed

lemma structuring_loop_length:
  assumes "structuring_loop p T M c draws rem seq txns = Inr (rem', seq', txns')"
    and "seq = int (length txns)"
  shows "seq' = int (length txns') \<and> (rem' \<le> 0 \<or> c \<le> seq')"
proof -
  have "seq' = int (length txns') \<and> \<not> (rem' > 0 \<and> seq' < c)"
    by (rule structuring_loop_invariant
        [where I = "\<lambda>rem seq (txns :: pending_transaction list). seq = int (length txns)",
          OF assms(1)])
      (simp_all add: assms(2))
  then show ?thesis by auto
qed

lemma structuring_target_arith:
  fixes T :: real
  assumes "0 < T" and "T \<le> 57994.2"
  shows "T - 9999 \<le> min (T - real_of_int \<lceil>T / 9999\<rceil> / 200)
                          (39996 / 5 * real_of_int \<lceil>T / 9999\<rceil>)"
proof -
  let ?c = "\<lceil>T / 9999\<rceil>"
  have cc: "real_of_int ?c - 1 < T / 9999 \<and> T / 9999 \<le> real_of_int ?c"
    by (rule ceiling_correct)
  have "real_of_int ?c < 7" using cc assms(2) by linarith
  then have c6: "?c \<le> 6" by linarith
  have T1: "T \<le> 9999 * real_of_int ?c" using cc by linarith
  have a: "T - 9999 \<le> T - real_of_int ?c / 200"
    using c6 by linarith
  have b: "T - 9999 \<le> 39996 / 5 * real_of_int ?c"
  proof (cases "?c \<le> 5")
    case True
    then have "real_of_int ?c \<le> 5" by linarith
    with T1 show ?thesis by linarith
  next
    case False
    with c6 have "?c = 6" by linarith
    then have "real_of_int ?c = 6" by simp
    with assms(2) show ?thesis by simp
  qed
  from a b show ?thesis by simp
qed

text \<open>Without keyword arguments, \<open>_generate_structuring_attack\<close> builds a profile
  with a target between 10000 and 50000, \<open>individual_max = 9999\<close> and the count
  \<open>ceil(target / individual_max)\<close>.\<close>

lemma generated_structuring_profile:
  assumes "kw_threshold kwargs = None" and "kw_split_into kwargs = None"
    and "0 \<le> ad_target d" and "ad_target d \<le> 1"
    and "generate_structuring_attack fid customers account_mapping start intens kwargs d = Inr p"
  shows "\<exists>T. md_target_amount (fp_metadata p) = Some T \<and> 10000 \<le> T \<and> T \<le> 50000
           \<and> md_individual_max (fp_metadata p) = Some 9999
           \<and> md_transaction_count (fp_metadata p) = Some \<lceil>T / 9999\<rceil>
           \<and> 60 \<le> duration_minutes p"
proof -
  let ?T = "uniform 10000 50000 (ad_target d)"
  have T: "10000 \<le> ?T \<and> ?T \<le> 50000"
    using uniform_bounds [of 10000 50000 "ad_target d"] assms(3,4) by simp
  have "md_target_amount (fp_metadata p) = Some ?T
      \<and> md_individual_max (fp_metadata p) = Some 9999
      \<and> md_transaction_count (fp_metadata p) = Some \<lceil>?T / 9999\<rceil>
      \<and> 60 \<le> duration_minutes p"
    using assms(1,2,5)
    by (auto simp: generate_structuring_attack_def Let_def randint_def empty_metadata_def
        split: sum.splits if_splits)
  with T show ?thesis by blast
qed

text \<open>C5, amended. For a structuring profile with \<open>individual_max = 9999\<close>, the
  transaction count \<open>ceil(target / individual_max)\<close>, at least one account and a target of
  at most 57994.20 (that is 5.8 times \<open>individual_max\<close>; the default targets 10000 to
  50000 are below it), the generator returns transactions whose amounts are all at most
  9999 and sum to at least the target minus 9999; the loop stops only with nothing
  remaining or with the count reached.\<close>

theorem structuring_stays_under_threshold:
  assumes "md_target_amount (fp_metadata p) = Some T"
    and "md_individual_max (fp_metadata p) = Some 9999"
    and "md_transaction_count (fp_metadata p) = Some \<lceil>T / 9999\<rceil>"
    and "T \<le> 57994.2"
    and "account_ids p \<noteq> []"
    and "0 \<le> duration_minutes p"
    and "\<forall>i. 0 \<le> d_amount (draws i) \<and> d_amount (draws i) \<le> 1"
  shows "\<exists>txns. generate_structuring_transactions p now draws = Inr txns
           \<and> (\<forall>t \<in> set txns. amount t \<le> 9999)
           \<and> T - 9999 \<le> sum_list (map amount txns)
           \<and> (T \<le> 0 \<and> txns = []
              \<or> (\<exists>remaining. structuring_loop p T 9999 \<lceil>T / 9999\<rceil> draws T 0 []
                       = Inr (remaining, int (length txns), txns)
                    \<and> (remaining \<le> 0 \<or> \<lceil>T / 9999\<rceil> \<le> int (length txns))))"
proof (cases "0 < T")
  case False
  then have "generate_structuring_transactions p now draws = Inr []"
    using assms(1,2) by (simp add: generate_structuring_transactions_def lookup_def)
  with False show ?thesis by simp
next
  case True
  let ?c = "\<lceil>T / 9999\<rceil>"
  obtain res where "structuring_loop p T 9999 ?c draws T 0 [] = Inr res"
    using structuring_loop_total [OF assms(5,6)] by blast
  then obtain remaining seq txns where
    loop: "structuring_loop p T 9999 ?c draws T 0 [] = Inr (remaining, seq, txns)"
    by (cases res) auto
  have gen: "generate_structuring_transactions p now draws = Inr txns"
    using assms(1-3) True loop
    by (simp add: generate_structuring_transactions_def lookup_def)
  have e: "0 = int (length ([] :: pending_transaction list))" by simp
  have len: "seq = int (length txns)"
    by (rule conjunct1 [OF structuring_loop_length [OF loop e]])
  have stop: "remaining \<le> 0 \<or> ?c \<le> seq"
    by (rule conjunct2 [OF structuring_loop_length [OF loop e]])
  have amounts: "\<forall>t \<in> set txns. amount t \<le> 9999"
    using structuring_loop_amounts [OF loop assms(7)] by simp
  have m: "min (T - real_of_int ?c / 200) (39996 / 5 * real_of_int ?c)
      \<le> sum_list (map amount txns)"
    using structuring_loop_sum [OF loop assms(7)] by simp
  have sum: "T - 9999 \<le> sum_list (map amount txns)"
    by (rule order_trans [OF structuring_target_arith [OF True assms(4)] m])
  have "\<exists>remaining. structuring_loop p T 9999 ?c draws T 0 []
                       = Inr (remaining, int (length txns), txns)
                    \<and> (remaining \<le> 0 \<or> ?c \<le> int (length txns))"
    using loop stop unfolding len by blast
  with gen amounts sum show ?thesis by blast
qed

theorem structuring_stays_under_threshold_witness:
  "md_target_amount (fp_metadata (example_structuring_profile 25000)) = Some 25000
   \<and> md_individual_max (fp_metadata (example_structuring_profile 25000)) = Some 9999
   \<and> account_ids (example_structuring_profile 25000) \<noteq> []
   \<and> 0 \<le> duration_minutes (example_structuring_profile 25000)
   \<and> (25000 :: real) \<le> 57994.2
   \<and> generate_structuring_transactions (example_structuring_profile 25000) 0
         (\<lambda>_. example_draws (1 / 2))
       = Inr (projr (generate_structuring_transactions (example_structuring_profile 25000) 0
                (\<lambda>_. example_draws (1 / 2))))
   \<and> (25000 :: real) - 9999
       \<le> sum_list (map amount
            (projr (generate_structuring_transactions (example_structuring_profile 25000) 0
               (\<lambda>_. example_draws (1 / 2)))))"
proof -
  let ?p = "example_structuring_profile 25000"
  let ?d = "\<lambda>_ :: nat. example_draws (1 / 2)"
  have h1: "md_target_amount (fp_metadata ?p) = Some 25000"
    by (simp add: example_structuring_profile_def)
  have h2: "md_individual_max (fp_metadata ?p) = Some 9999"
    by (simp add: example_structuring_profile_def)
  have h3: "md_transaction_count (fp_metadata ?p) = Some \<lceil>(25000 :: real) / 9999\<rceil>"
    by (simp add: example_structuring_profile_def)
  have h4: "(25000 :: real) \<le> 57994.2" by simp
  have h5: "account_ids ?p \<noteq> []"
    by (simp add: example_structuring_profile_def)
  have h6: "0 \<le> duration_minutes ?p"
    by (simp add: example_structuring_profile_def)
  have h7: "\<forall>i. 0 \<le> d_amount (?d i) \<and> d_amount (?d i) \<le> 1"
    by (simp add: example_draws_def)
  from structuring_stays_under_threshold [OF h1 h2 h3 h4 h5 h6 h7, of 0]
  obtain txns where g: "generate_structuring_transactions ?p 0 ?d = Inr txns"
    and s: "25000 - 9999 \<le> sum_list (map amount txns)"
    by blast
  show ?thesis
    using h1 h2 h4 h5 h6 s unfolding g by simp
qed

text \<open>C5, as the claim states it, fails for a scenario-supplied target above
  5.8 times \<open>individual_max\<close>: with the threshold 59994 the count is 6, and when every
  draw is the lower bound \<open>0.8 * 9999\<close> the six deposits sum to 47995.20, less than
  \<open>59994 - 9999 = 49995\<close>.\<close>

theorem structuring_large_target_falls_short:
  "map_sum id (\<lambda>ts. (length ts, sum_list (map amount ts)))
     (generate_structuring_transactions (example_structuring_profile 59994) 0
        (\<lambda>_. example_draws 0))
   = Inr (6, 47995.2)
   \<and> (47995.2 :: real) < 59994 - 9999"
  by (simp add: generate_structuring_transactions_def example_structuring_profile_def
      empty_metadata_def lookup_def example_draws_def structuring_loop.simps
      randint_def choice_def uniform_def structuring_transaction_amount
      py_round_to_def py_round_def Let_def)

lemma example_profile_is_generated:
  "generate_structuring_attack ''FRAUD_0_1000'' [example_customer]
     [''CUST_000001'' \<mapsto> [''ACC_000001'']] 0 1
     \<lparr>kw_threshold = Some T, kw_split_into = None\<rparr>
     \<lparr>ad_target = 0, ad_single = 0, ad_choice = 0, ad_count = 0, ad_sample = (\<lambda>_. 0),
      ad_duration = 0\<rparr>
   = Inr (example_structuring_profile T)"
  by (simp add: generate_structuring_attack_def example_structuring_profile_def
      example_customer_def choice_def randint_def Let_def)

subsection \<open>Life-event overlay\<close>





subsection \<open>Fraud-pattern setup\<close>










subsection \<open>Suppression by the success rate\<close>

lemma and_then_Inr:
  "and_then r f = Inr y \<Longrightarrow> \<exists>v. r = Inr v \<and> f v = Inr y"
  by (cases r) (simp_all add: and_then_def)

lemma gated_loop_result:
  "gated_loop build p draws is txns = Inr out \<Longrightarrow>
     out = txns @ map (\<lambda>i. projr (build p i (draws i)))
                    (filter (\<lambda>i. \<not> d_roll (draws i) > success_rate p) is)"
proof (induction "is" arbitrary: txns)
  case Nil
  then show ?case by simp
next
  case (Cons i rest)
  show ?case
  proof (cases "d_roll (draws i) > success_rate p")
    case True
    with Cons.prems have "gated_loop build p draws rest txns = Inr out" by simp
    from Cons.IH [OF this] True show ?thesis by simp
  next
    case False
    with Cons.prems obtain t where
      b: "build p i (draws i) = Inr t"
      and r: "gated_loop build p draws rest (txns @ [t]) = Inr out"
      by (auto dest: and_then_Inr)
    from Cons.IH [OF r] False b show ?thesis by simp
  qed
qed

text \<open>C6, amended. For a card-testing, velocity-attack or large-amount profile and a
  call of \<open>generate_fraud_transactions\<close> inside the profile's active interval that
  returns, the transactions returned are, in order, those of the candidates
  \<open>i < transaction_count\<close> whose draw \<open>random.random()\<close> does not exceed the profile's
  success rate: a candidate is suppressed exactly when its draw exceeds the success
  rate.\<close>

theorem success_rate_gates_candidates:
  assumes "fp_fraud_type p = CARD_TESTING \<or> fp_fraud_type p = VELOCITY_ATTACK
             \<or> fp_fraud_type p = LARGE_AMOUNT"
    and "start_time p \<le> t" and "t \<le> end_time p"
    and "md_transaction_count (fp_metadata p) = Some n"
    and "generate_fraud_transactions p t draws = Inr txns"
  shows "txns = map (\<lambda>i. mark_fraud p (projr
                  ((case fp_fraud_type p of
                      CARD_TESTING \<Rightarrow> card_testing_transaction
                    | VELOCITY_ATTACK \<Rightarrow> velocity_transaction
                    | _ \<Rightarrow> large_amount_transaction) p i (g_iter draws i))))
               (filter (\<lambda>i. \<not> d_roll (g_iter draws i) > success_rate p) (py_range n))
       \<and> length txns
           = length (filter (\<lambda>i. \<not> d_roll (g_iter draws i) > success_rate p) (py_range n))"
proof -
  let ?build = "case fp_fraud_type p of
                      CARD_TESTING \<Rightarrow> card_testing_transaction
                    | VELOCITY_ATTACK \<Rightarrow> velocity_transaction
                    | _ \<Rightarrow> large_amount_transaction"
  have active: "\<not> (t < start_time p \<or> t > end_time p)" using assms(2,3) by simp
  have "\<exists>raw. gated_loop ?build p (g_iter draws) (py_range n) [] = Inr raw
            \<and> txns = map (mark_fraud p) raw"
    using assms(1,4,5) active
    by (auto simp: generate_fraud_transactions_def generate_card_testing_transactions_def
        generate_velocity_transactions_def generate_large_amount_transactions_def
        lookup_def dest!: and_then_Inr)
  then obtain raw where
    g: "gated_loop ?build p (g_iter draws) (py_range n) [] = Inr raw"
    and m: "txns = map (mark_fraud p) raw"
    by blast
  from gated_loop_result [OF g] m show ?thesis by (simp add: comp_def)
qed

theorem success_rate_gates_candidates_witness:
  "fp_fraud_type example_card_testing_profile = CARD_TESTING
   \<and> start_time example_card_testing_profile \<le> 0
   \<and> 0 \<le> end_time example_card_testing_profile
   \<and> md_transaction_count (fp_metadata example_card_testing_profile) = Some 3
   \<and> generate_fraud_transactions example_card_testing_profile 0
         (example_gen_draws (\<lambda>i. if i = 1 then 0.9 else 0.3))
       = Inr (projr (generate_fraud_transactions example_card_testing_profile 0
                (example_gen_draws (\<lambda>i. if i = 1 then 0.9 else 0.3))))
   \<and> map (\<lambda>t. metadata t ''test_sequence'')
         (projr (generate_fraud_transactions example_card_testing_profile 0
            (example_gen_draws (\<lambda>i. if i = 1 then 0.9 else 0.3))))
       = [Some (MInt 1), Some (MInt 3)]"
proof -
  let ?p = "example_card_testing_profile"
  let ?d = "example_gen_draws (\<lambda>i. if i = 1 then 0.9 else 0.3)"
  have h1: "fp_fraud_type ?p = CARD_TESTING \<or> fp_fraud_type ?p = VELOCITY_ATTACK
             \<or> fp_fraud_type ?p = LARGE_AMOUNT"
    by (simp add: example_card_testing_profile_def)
  have h2: "start_time ?p \<le> 0"
    by (simp add: example_card_testing_profile_def)
  have h3: "0 \<le> end_time ?p"
    by (simp add: example_card_testing_profile_def end_time_def microseconds_per_minute_def)
  have h4: "md_transaction_count (fp_metadata ?p) = Some 3"
    by (simp add: example_card_testing_profile_def empty_metadata_def)
  obtain txns where g: "generate_fraud_transactions ?p 0 ?d = Inr txns"
    by (simp add: generate_fraud_transactions_def generate_card_testing_transactions_def
      example_card_testing_profile_def example_gen_draws_def example_draws_def
      empty_metadata_def lookup_def and_then_def py_range_def end_time_def
      microseconds_per_minute_def card_testing_transaction_def randint_def choice_def
      upt_rec)
  have keep: "filter (\<lambda>i. \<not> d_roll (g_iter ?d i) > success_rate ?p) (py_range 3) = [0, 2]"
    by (simp add: example_card_testing_profile_def example_gen_draws_def example_draws_def
        py_range_def upt_rec)
  have seq: "metadata (mark_fraud ?p (projr (card_testing_transaction ?p i (g_iter ?d i))))
      ''test_sequence'' = Some (MInt (int i + 1))" for i
    by (simp add: mark_fraud_def card_testing_transaction_def example_card_testing_profile_def
        example_gen_draws_def example_draws_def empty_metadata_def lookup_def and_then_def
        randint_def choice_def)
  have t: "fp_fraud_type ?p = CARD_TESTING"
    by (simp add: example_card_testing_profile_def)
  have "txns = map (\<lambda>i. mark_fraud ?p (projr (card_testing_transaction ?p i (g_iter ?d i)))) [0, 2]"
    using success_rate_gates_candidates [OF h1 h2 h3 h4 g] unfolding keep t by simp
  then have "map (\<lambda>t. metadata t ''test_sequence'') txns = [Some (MInt 1), Some (MInt 3)]"
    using seq by simp
  then show ?thesis
    using t h2 h3 h4 unfolding g by simp
qed

text \<open>C6, as the claim states it for all fraud types, fails: the generators of the
  other types make no such draw. An unusual-location profile with success rate 0.6 and
  two candidates yields both transactions although every \<open>random.random()\<close> of the run
  is 0.9.\<close>

theorem unusual_location_ignores_success_rate:
  "map_sum id length
     (generate_fraud_transactions example_unusual_location_profile 0
        (example_gen_draws (\<lambda>_. 0.9))) = Inr 2
   \<and> d_roll (g_iter (example_gen_draws (\<lambda>_. 0.9)) 0)
       > success_rate example_unusual_location_profile
   \<and> d_roll (g_iter (example_gen_draws (\<lambda>_. 0.9)) 1)
       > success_rate example_unusual_location_profile"
  by (simp add: generate_fraud_transactions_def generate_unusual_location_transactions_def
      example_unusual_location_profile_def example_gen_draws_def example_draws_def
      empty_metadata_def lookup_def and_then_def py_range_def end_time_def
      microseconds_per_minute_def unusual_location_transaction_def randint_def choice_def
      upt_rec)

end
